theory Spec2Isabelle
  imports Main "HOL-Library.Multiset" "HOL-Library.Char_ord" "HOL-Library.List_Lexorder"
    "HOL-Library.Product_Lexorder"
begin

section \<open>The knowledge graph\<close>

text \<open>
  The recommender of \<^verbatim>\<open>s2a_prototype/app.py\<close> reads an rdflib graph: a set of triples
  of nodes. A node is an IRI (\<^verbatim>\<open>URIRef\<close>) or a literal; the ingestion writes integer
  literals (\<^verbatim>\<open>xsd:integer\<close>) and string literals (\<^verbatim>\<open>xsd:string\<close>). The graph is
  modelled as the list of its triples in the order the store enumerates them; the
  lookups remove repetitions, since a graph holds a triple once.
  Strings are byte lists (UTF-8), whose lexicographic order is the order of Python's
  code points.
\<close>

datatype node = URIRef string | Literal_int int | Literal_str string

type_synonym triple = "node \<times> node \<times> node"
type_synonym graph = "triple list"

datatype error = ValueError

text \<open>
  Two behaviours of the Python runtime are not fixed by the program text and are taken
  as parameters: the order in which a \<^verbatim>\<open>set\<close> is iterated (fixed by the hash seed of
  the process), and the builtin \<^verbatim>\<open>int()\<close> on the text of a node that is not an integer
  literal (\<open>None\<close> stands for the \<^verbatim>\<open>ValueError\<close> it raises on text that is no numeral).
\<close>

record runtime =
  set_order :: "node list \<Rightarrow> node list"
  int_text :: "string \<Rightarrow> int option"

definition valid_order :: "(node list \<Rightarrow> node list) \<Rightarrow> bool" where
  "valid_order f = (\<forall>xs. mset (f xs) = mset xs)"

definition BASE :: string where
  "BASE = ''http://example.org/s2a#''"

definition RDF_type :: node where
  "RDF_type = URIRef ''http://www.w3.org/1999/02/22-rdf-syntax-ns#type''"

text \<open>
  \<^verbatim>\<open>_as_uri\<close> strips white space and replaces blanks; the white space of ASCII is
  modelled, which covers every name the recommender passes.
\<close>

definition is_space :: "char \<Rightarrow> bool" where
  "is_space c = (c \<in> set [CHR 0x09, CHR 0x0A, CHR 0x0B, CHR 0x0C, CHR 0x0D,
                            CHR 0x1C, CHR 0x1D, CHR 0x1E, CHR 0x1F, CHR '' ''])"

definition strip :: "string \<Rightarrow> string" where
  "strip s = rev (dropWhile is_space (rev (dropWhile is_space s)))"

definition as_uri :: "string \<Rightarrow> node" where
  "as_uri local_id =
     URIRef (BASE @ map (\<lambda>c. if c = CHR '' '' then CHR ''_'' else c) (strip local_id))"

definition subjects :: "graph \<Rightarrow> node \<Rightarrow> node \<Rightarrow> node list" where
  "subjects g p ob = remdups (map fst (filter (\<lambda>t. fst (snd t) = p \<and> snd (snd t) = ob) g))"

definition objects :: "graph \<Rightarrow> node \<Rightarrow> node \<Rightarrow> node list" where
  "objects g s p = remdups (map (\<lambda>t. snd (snd t)) (filter (\<lambda>t. fst t = s \<and> fst (snd t) = p) g))"

definition value_of :: "graph \<Rightarrow> node \<Rightarrow> node \<Rightarrow> node option" where
  "value_of g s p = (case objects g s p of [] \<Rightarrow> None | v # _ \<Rightarrow> Some v)"

section \<open>Rendering values\<close>

function str_nat :: "nat \<Rightarrow> string" where
  "str_nat n = (if n < 10 then [''0123456789'' ! n]
                else str_nat (n div 10) @ [''0123456789'' ! (n mod 10)])"
  by pat_completeness auto
termination
  by (relation "measure id") auto

definition str_int :: "int \<Rightarrow> string" where
  "str_int i = (if i < 0 then CHR ''-'' # str_nat (nat (- i)) else str_nat (nat i))"

fun str_node :: "node \<Rightarrow> string" where
  "str_node (URIRef u) = u"
| "str_node (Literal_int n) = str_int n"
| "str_node (Literal_str s) = s"

text \<open>Truth value of a node in a condition: a non-empty IRI or string, a non-zero integer.\<close>

fun truthy :: "node \<Rightarrow> bool" where
  "truthy (URIRef u) = (u \<noteq> [])"
| "truthy (Literal_int n) = (n \<noteq> 0)"
| "truthy (Literal_str s) = (s \<noteq> [])"

definition str_opt_int :: "int option \<Rightarrow> string" where
  "str_opt_int x = (case x of None \<Rightarrow> ''None'' | Some n \<Rightarrow> str_int n)"

definition str_opt_str :: "string option \<Rightarrow> string" where
  "str_opt_str x = (case x of None \<Rightarrow> ''None'' | Some s \<Rightarrow> s)"

text \<open>\<^verbatim>\<open>s.split("#")[-1]\<close>: the text after the last \<^verbatim>\<open>#\<close>, all of it when there is none.\<close>

definition after_last_hash :: "string \<Rightarrow> string" where
  "after_last_hash s = rev (takeWhile (\<lambda>c. c \<noteq> CHR ''#'') (rev s))"

definition iri_to_label :: "graph \<Rightarrow> node \<Rightarrow> string" where
  "iri_to_label g n =
     (case value_of g n (as_uri ''label'') of
        Some lab \<Rightarrow> if truthy lab then str_node lab else after_last_hash (str_node n)
      | None \<Rightarrow> after_last_hash (str_node n))"

fun py_int :: "(string \<Rightarrow> int option) \<Rightarrow> node \<Rightarrow> error + int" where
  "py_int f (Literal_int n) = Inr n"
| "py_int f (URIRef u) = (case f u of None \<Rightarrow> Inl ValueError | Some n \<Rightarrow> Inr n)"
| "py_int f (Literal_str s) = (case f s of None \<Rightarrow> Inl ValueError | Some n \<Rightarrow> Inr n)"

definition get_int :: "runtime \<Rightarrow> graph \<Rightarrow> node \<Rightarrow> string \<Rightarrow> error + int option" where
  "get_int rt g subj prop =
     (case value_of g subj (as_uri prop) of
        None \<Rightarrow> Inr None
      | Some v \<Rightarrow> (case py_int (int_text rt) v of Inl e \<Rightarrow> Inl e | Inr n \<Rightarrow> Inr (Some n)))"

definition get_str :: "graph \<Rightarrow> node \<Rightarrow> string \<Rightarrow> string option" where
  "get_str g subj prop = map_option str_node (value_of g subj (as_uri prop))"

text \<open>\<^verbatim>\<open>x or d\<close> on an optional integer: \<open>d\<close> when \<open>x\<close> is missing or zero.\<close>

definition or_int :: "int option \<Rightarrow> int \<Rightarrow> int" where
  "or_int x d = (case x of None \<Rightarrow> d | Some n \<Rightarrow> if n = 0 then d else n)"

section \<open>Course metadata and the constraint checks\<close>

record course_meta =
  credits :: int
  semester :: "int option"
  difficulty :: "int option"
  track :: "string option"

definition course_meta_of :: "runtime \<Rightarrow> graph \<Rightarrow> node \<Rightarrow> error + course_meta" where
  "course_meta_of rt g course =
     (case get_int rt g course ''credits'' of Inl e \<Rightarrow> Inl e | Inr c \<Rightarrow>
     (case get_int rt g course ''semester'' of Inl e \<Rightarrow> Inl e | Inr sm \<Rightarrow>
     (case get_int rt g course ''difficulty'' of Inl e \<Rightarrow> Inl e | Inr d \<Rightarrow>
        Inr \<lparr>credits = or_int c 0, semester = sm, difficulty = d,
             track = get_str g course ''track''\<rparr>)))"

definition le_sign :: string where
  "le_sign = [CHR 0xE2, CHR 0x89, CHR 0xA4]"

definition arrow_right :: string where
  "arrow_right = [CHR 0xE2, CHR 0x86, CHR 0x92]"

definition arrow_left :: string where
  "arrow_left = [CHR 0xE2, CHR 0x86, CHR 0x90]"

fun semester_check :: "int option \<Rightarrow> int option \<Rightarrow> bool \<times> string" where
  "semester_check (Some t) (Some c) =
     (if c \<le> t
      then (True, ''semester: course='' @ str_int c @ '' '' @ le_sign @ '' target='' @ str_int t @ '' => OK'')
      else (False, ''semester: course='' @ str_int c @ '' > target='' @ str_int t @ '' => FAIL''))"
| "semester_check t c =
     (True, ''semester: course='' @ str_opt_int c @ '' vs target='' @ str_opt_int t
            @ '' => OK (no/unknown constraint)'')"

fun difficulty_check :: "int option \<Rightarrow> int option \<Rightarrow> bool \<times> string" where
  "difficulty_check (Some m) (Some c) =
     (if c \<le> m
      then (True, ''difficulty: course='' @ str_int c @ '' '' @ le_sign @ '' max='' @ str_int m @ '' => OK'')
      else (False, ''difficulty: course='' @ str_int c @ '' > max='' @ str_int m @ '' => FAIL''))"
| "difficulty_check m c =
     (True, ''difficulty: course='' @ str_opt_int c @ '' vs max='' @ str_opt_int m
            @ '' => OK (no/unknown constraint)'')"

text \<open>\<^verbatim>\<open>not t\<close> on an optional string: missing or empty.\<close>

definition no_text :: "string option \<Rightarrow> bool" where
  "no_text t = (t = None \<or> t = Some [])"

definition track_check :: "string option \<Rightarrow> string option \<Rightarrow> bool \<times> string" where
  "track_check p c =
     (if no_text p \<or> no_text c
      then (True, ''track: course='' @ str_opt_str c @ '' vs preferred='' @ str_opt_str p
                  @ '' => OK (no/unknown constraint)'')
      else if c = p
      then (True, ''track: course='' @ str_opt_str c @ '' == preferred='' @ str_opt_str p @ '' => OK'')
      else (False, ''track: course='' @ str_opt_str c @ '' != preferred='' @ str_opt_str p @ '' => FAIL''))"

text \<open>The budget line written while the constraints are checked, before the selection.\<close>

definition tentative_budget_line :: "int option \<Rightarrow> int \<Rightarrow> int \<Rightarrow> string" where
  "tentative_budget_line max_credits current_total_credits c_cred =
     (case max_credits of
        None \<Rightarrow> ''credits: course='' @ str_int c_cred @ '', current_total=''
                 @ str_int current_total_credits @ '', max=None => selected by relevance''
      | Some m \<Rightarrow> ''credits: course='' @ str_int c_cred @ '', current_total=''
                 @ str_int current_total_credits @ '', max='' @ str_int m
                 @ '' => decision during selection'')"

definition constraint_checks ::
  "int option \<Rightarrow> int option \<Rightarrow> string option \<Rightarrow> int option \<Rightarrow> int \<Rightarrow> course_meta
     \<Rightarrow> bool \<times> string list \<times> string" where
  "constraint_checks target_semester max_difficulty preferred_track max_credits
       current_total_credits m =
     (let s = semester_check target_semester (semester m);
          d = difficulty_check max_difficulty (difficulty m);
          t = track_check preferred_track (track m)
      in (fst s \<and> fst d \<and> fst t, [snd s, snd d, snd t],
          tentative_budget_line max_credits current_total_credits (credits m)))"

section \<open>The recommender\<close>

record explain =
  interest_paths :: "string list"
  prereq_paths :: "string list"
  constraint_lines :: "string list"
  budget_line :: string

record candidate =
  course_uri :: node
  course_label :: string
  matched_interests :: "string list"
  meta :: course_meta
  score :: "int \<times> int \<times> int"
  explain :: explain

record rec_course =
  course :: string
  rc_matched_interests :: "string list"
  rc_explain :: explain

record rec_career =
  career :: string
  matched_skills :: "string list"
  explain_paths :: "string list"

record rec_paper =
  paper :: string
  paper_explain_paths :: "string list"

record recommendation =
  courses :: "rec_course list"
  careers :: "rec_career list"
  papers :: "rec_paper list"

definition interest_path :: "string \<Rightarrow> string \<Rightarrow> string \<Rightarrow> string" where
  "interest_path student_label skill_label c_label =
     student_label @ '' '' @ arrow_right @ '' hasInterest '' @ arrow_right @ '' '' @ skill_label
       @ '' '' @ arrow_left @ '' teachesSkill '' @ arrow_left @ '' '' @ c_label"

definition prereq_path :: "string \<Rightarrow> string \<Rightarrow> string \<Rightarrow> string" where
  "prereq_path c_label pre_label student_label =
     c_label @ '' '' @ arrow_right @ '' hasPrerequisite '' @ arrow_right @ '' '' @ pre_label
       @ '' AND '' @ student_label @ '' '' @ arrow_right @ '' takesCourse '' @ arrow_right
       @ '' '' @ pre_label"

text \<open>
  A set is a list without repetitions; \<open>set_order rt\<close> is applied wherever the program
  iterates one. \<^verbatim>\<open>sorted(xs, key=f)\<close> is the stable \<open>sort_key f\<close>.
\<close>

definition matched_of :: "graph \<Rightarrow> node list \<Rightarrow> node \<Rightarrow> node list" where
  "matched_of g interest_skills c =
     filter (\<lambda>sk. sk \<in> set interest_skills) (objects g c (as_uri ''teachesSkill''))"

definition score_of :: "node list \<Rightarrow> course_meta \<Rightarrow> int \<times> int \<times> int" where
  "score_of matched m =
     (int (length matched), - or_int (difficulty m) 999, - or_int (semester m) 999)"

text \<open>
  One pass of the loop over the course nodes: \<open>Inr None\<close> is a \<^verbatim>\<open>continue\<close>,
  \<open>Inl\<close> an exception of \<^verbatim>\<open>_course_meta\<close>.
\<close>

definition candidate_of ::
  "runtime \<Rightarrow> graph \<Rightarrow> node \<Rightarrow> node list \<Rightarrow> node list \<Rightarrow> int option \<Rightarrow> int option
     \<Rightarrow> int option \<Rightarrow> string option \<Rightarrow> node \<Rightarrow> error + candidate option" where
  "candidate_of rt g s taken_courses interest_skills target_semester max_credits
       max_difficulty preferred_track c =
     (if c \<in> set taken_courses then Inr None
      else let matched = matched_of g interest_skills c in
      if matched = [] then Inr None
      else let prereqs = objects g c (as_uri ''hasPrerequisite'') in
      if \<not> set prereqs \<subseteq> set taken_courses then Inr None
      else case course_meta_of rt g c of Inl e \<Rightarrow> Inl e | Inr m \<Rightarrow>
        let chk = constraint_checks target_semester max_difficulty preferred_track
                    max_credits 0 m in
        if \<not> fst chk then Inr None
        else let student_label = iri_to_label g s;
                 c_label = iri_to_label g c
        in Inr (Some \<lparr>course_uri = c, course_label = c_label,
             matched_interests = sort (map (iri_to_label g) (set_order rt matched)),
             meta = m, score = score_of matched m,
             explain = \<lparr>interest_paths =
                          map (\<lambda>sk. interest_path student_label (iri_to_label g sk) c_label)
                            (set_order rt matched),
                        prereq_paths =
                          map (\<lambda>p. prereq_path c_label (iri_to_label g p) student_label)
                            (sort_key (iri_to_label g) (set_order rt prereqs)),
                        constraint_lines = fst (snd chk),
                        budget_line = snd (snd chk)\<rparr>\<rparr>))"

fun candidates_loop :: "(node \<Rightarrow> error + candidate option) \<Rightarrow> node list \<Rightarrow> error + candidate list" where
  "candidates_loop f [] = Inr []"
| "candidates_loop f (c # cs) =
     (case f c of
        Inl e \<Rightarrow> Inl e
      | Inr None \<Rightarrow> candidates_loop f cs
      | Inr (Some x) \<Rightarrow>
          (case candidates_loop f cs of Inl e \<Rightarrow> Inl e | Inr xs \<Rightarrow> Inr (x # xs)))"

text \<open>\<^verbatim>\<open>xs.sort(key=f, reverse=True)\<close>: descending, equal keys in their original order.\<close>

definition sort_reverse :: "('a \<Rightarrow> 'k::linorder) \<Rightarrow> 'a list \<Rightarrow> 'a list" where
  "sort_reverse f xs = rev (sort_key f (rev xs))"

definition selected_line :: "int option \<Rightarrow> int \<Rightarrow> int \<Rightarrow> string" where
  "selected_line max_credits tot c_cred =
     (case max_credits of
        None \<Rightarrow> ''credits: course='' @ str_int c_cred @ '', current_total='' @ str_int tot
                 @ '', max=None => SELECTED''
      | Some m \<Rightarrow> ''credits: course='' @ str_int c_cred @ '', current_total='' @ str_int tot
                 @ '' + '' @ str_int c_cred @ '' '' @ le_sign @ '' max='' @ str_int m
                 @ '' => SELECTED'')"

definition fits :: "int option \<Rightarrow> int \<Rightarrow> int \<Rightarrow> bool" where
  "fits max_credits tot c_cred =
     (case max_credits of None \<Rightarrow> True | Some m \<Rightarrow> tot + c_cred \<le> m)"

text \<open>
  The credit budget selection: the loop over the ranked candidates with its running
  total. A selected item is returned with its budget line overwritten; the line written
  on a skipped item is never returned.
\<close>

definition rec_entry :: "candidate \<Rightarrow> string \<Rightarrow> rec_course" where
  "rec_entry item line =
     \<lparr>course = course_label item, rc_matched_interests = matched_interests item,
      rc_explain = (explain item)\<lparr>budget_line := line\<rparr>\<rparr>"

fun select_loop :: "int option \<Rightarrow> int \<Rightarrow> candidate list \<Rightarrow> rec_course list" where
  "select_loop max_credits tot [] = []"
| "select_loop max_credits tot (item # items) =
     (let c_cred = credits (meta item) in
      if fits max_credits tot c_cred
      then rec_entry item (selected_line max_credits tot c_cred)
           # select_loop max_credits (tot + c_cred) items
      else select_loop max_credits tot items)"

text \<open>The candidates the same loop selects, for statements about their credits.\<close>

fun picked :: "int option \<Rightarrow> int \<Rightarrow> candidate list \<Rightarrow> candidate list" where
  "picked max_credits tot [] = []"
| "picked max_credits tot (item # items) =
     (let c_cred = credits (meta item) in
      if fits max_credits tot c_cred
      then item # picked max_credits (tot + c_cred) items
      else picked max_credits tot items)"

subsection \<open>Careers and papers\<close>

definition career_path ::
  "runtime \<Rightarrow> graph \<Rightarrow> node list \<Rightarrow> node list \<Rightarrow> string \<Rightarrow> string \<Rightarrow> node \<Rightarrow> string" where
  "career_path rt g taken_courses interest_skills student_label car_label sk =
     (let sk_label = iri_to_label g sk in
      if sk \<in> set interest_skills
      then student_label @ '' '' @ arrow_right @ '' hasInterest '' @ arrow_right @ '' '' @ sk_label
             @ '' '' @ arrow_left @ '' requiresSkill '' @ arrow_left @ '' '' @ car_label
      else case map_option (iri_to_label g)
                  (find (\<lambda>c. (c, as_uri ''teachesSkill'', sk) \<in> set g) (set_order rt taken_courses)) of
             Some (x # xs) \<Rightarrow>
               student_label @ '' '' @ arrow_right @ '' takesCourse '' @ arrow_right @ '' '' @ (x # xs)
                 @ '' '' @ arrow_right @ '' teachesSkill '' @ arrow_right @ '' '' @ sk_label
                 @ '' '' @ arrow_left @ '' requiresSkill '' @ arrow_left @ '' '' @ car_label
           | _ \<Rightarrow> sk_label @ '' '' @ arrow_left @ '' requiresSkill '' @ arrow_left @ '' '' @ car_label
                 @ '' (skill available)'')"

definition career_matched :: "graph \<Rightarrow> node list \<Rightarrow> node \<Rightarrow> node list" where
  "career_matched g available_skills car =
     filter (\<lambda>sk. sk \<in> set available_skills) (objects g car (as_uri ''requiresSkill''))"

definition career_of ::
  "runtime \<Rightarrow> graph \<Rightarrow> node \<Rightarrow> node list \<Rightarrow> node list \<Rightarrow> node list \<Rightarrow> node \<Rightarrow> rec_career" where
  "career_of rt g s taken_courses interest_skills available_skills car =
     (let matched = career_matched g available_skills car;
          car_label = iri_to_label g car
      in \<lparr>career = car_label,
          matched_skills = sort (map (iri_to_label g) (set_order rt matched)),
          explain_paths =
            map (career_path rt g taken_courses interest_skills (iri_to_label g s) car_label)
              (sort_key (iri_to_label g) (set_order rt matched))\<rparr>)"

definition paper_matched :: "graph \<Rightarrow> node list \<Rightarrow> node \<Rightarrow> node list" where
  "paper_matched g interest_skills p =
     filter (\<lambda>sk. sk \<in> set interest_skills) (objects g p (as_uri ''relatedTo''))"

definition paper_of :: "runtime \<Rightarrow> graph \<Rightarrow> node \<Rightarrow> node list \<Rightarrow> node \<Rightarrow> rec_paper" where
  "paper_of rt g s interest_skills p =
     (let paper_label = iri_to_label g p
      in \<lparr>paper = paper_label,
          paper_explain_paths =
            map (\<lambda>sk. iri_to_label g s @ '' '' @ arrow_right @ '' hasInterest '' @ arrow_right
                        @ '' '' @ iri_to_label g sk @ '' '' @ arrow_left @ '' relatedTo ''
                        @ arrow_left @ '' '' @ paper_label)
              (sort_key (iri_to_label g) (set_order rt (paper_matched g interest_skills p)))\<rparr>)"

subsection \<open>The entry point\<close>

definition taken_of :: "graph \<Rightarrow> node \<Rightarrow> node list" where
  "taken_of g s = objects g s (as_uri ''takesCourse'')"

definition interests_of :: "graph \<Rightarrow> node \<Rightarrow> node list" where
  "interests_of g s = objects g s (as_uri ''hasInterest'')"

definition gained_of :: "graph \<Rightarrow> node \<Rightarrow> node list" where
  "gained_of g s =
     remdups (concat (map (\<lambda>c. objects g c (as_uri ''teachesSkill'')) (taken_of g s)))"

text \<open>The candidate list before and after the ranking, for given student constraints.\<close>

definition candidates_of ::
  "runtime \<Rightarrow> graph \<Rightarrow> node \<Rightarrow> int option \<Rightarrow> int option \<Rightarrow> int option \<Rightarrow> error + candidate list" where
  "candidates_of rt g s target_semester max_credits max_difficulty =
     candidates_loop
       (candidate_of rt g s (taken_of g s) (interests_of g s) target_semester max_credits
          max_difficulty (get_str g s ''preferredTrack''))
       (subjects g RDF_type (as_uri ''Course''))"

definition ranked :: "candidate list \<Rightarrow> candidate list" where
  "ranked cands = sort_reverse score cands"

definition rec_careers_of :: "runtime \<Rightarrow> graph \<Rightarrow> node \<Rightarrow> rec_career list" where
  "rec_careers_of rt g s =
     (let available_skills = remdups (interests_of g s @ gained_of g s)
      in sort_key (\<lambda>x. (- int (length (matched_skills x)), career x))
           (map (career_of rt g s (taken_of g s) (interests_of g s) available_skills)
              (filter (\<lambda>car. career_matched g available_skills car \<noteq> [])
                 (subjects g RDF_type (as_uri ''Career'')))))"

definition rec_papers_of :: "runtime \<Rightarrow> graph \<Rightarrow> node \<Rightarrow> rec_paper list" where
  "rec_papers_of rt g s =
     sort_key paper
       (map (paper_of rt g s (interests_of g s))
          (filter (\<lambda>p. paper_matched g (interests_of g s) p \<noteq> [])
             (subjects g RDF_type (as_uri ''ResearchPaper''))))"

definition recommend :: "runtime \<Rightarrow> graph \<Rightarrow> string \<Rightarrow> error + recommendation" where
  "recommend rt g student_iri =
     (let s = URIRef student_iri in
      case get_int rt g s ''targetSemester'' of Inl e \<Rightarrow> Inl e | Inr target_semester \<Rightarrow>
     (case get_int rt g s ''maxCredits'' of Inl e \<Rightarrow> Inl e | Inr max_credits \<Rightarrow>
     (case get_int rt g s ''maxDifficulty'' of Inl e \<Rightarrow> Inl e | Inr max_difficulty \<Rightarrow>
     (case candidates_of rt g s target_semester max_credits max_difficulty of
        Inl e \<Rightarrow> Inl e
      | Inr cands \<Rightarrow>
          Inr \<lparr>courses = select_loop max_credits 0 (ranked cands),
               careers = rec_careers_of rt g s,
               papers = rec_papers_of rt g s\<rparr>))))"

text \<open>The ranked candidate list of a student: \<^verbatim>\<open>candidates\<close> after the sort.\<close>

definition ranked_of :: "runtime \<Rightarrow> graph \<Rightarrow> string \<Rightarrow> error + candidate list" where
  "ranked_of rt g student_iri =
     (let s = URIRef student_iri in
      case get_int rt g s ''targetSemester'' of Inl e \<Rightarrow> Inl e | Inr target_semester \<Rightarrow>
     (case get_int rt g s ''maxCredits'' of Inl e \<Rightarrow> Inl e | Inr max_credits \<Rightarrow>
     (case get_int rt g s ''maxDifficulty'' of Inl e \<Rightarrow> Inl e | Inr max_difficulty \<Rightarrow>
     (case candidates_of rt g s target_semester max_credits max_difficulty of
        Inl e \<Rightarrow> Inl e
      | Inr cands \<Rightarrow> Inr (ranked cands)))))"

section \<open>The specification's rules\<close>

text \<open>
  The greedy rule in the specification's words: walk the ranked list with a running
  total; with no budget every candidate is selected, otherwise a candidate is selected
  only if the running total plus its credits stays within the budget; the walk goes on
  to the next candidate either way.
\<close>

definition greedy_step :: "int option \<Rightarrow> int \<times> candidate list \<Rightarrow> candidate \<Rightarrow> int \<times> candidate list" where
  "greedy_step max_credits st c =
     (case max_credits of
        None \<Rightarrow> (fst st + credits (meta c), snd st @ [c])
      | Some m \<Rightarrow> if fst st + credits (meta c) \<le> m
                  then (fst st + credits (meta c), snd st @ [c]) else st)"

definition greedy_rule :: "int option \<Rightarrow> candidate list \<Rightarrow> candidate list" where
  "greedy_rule max_credits cs = snd (foldl (greedy_step max_credits) (0, []) cs)"

definition credit_sum :: "candidate list \<Rightarrow> int" where
  "credit_sum cs = sum_list (map (\<lambda>c. credits (meta c)) cs)"

text \<open>
  The ranking in the specification's words: descending by the count of matched
  interests, then by lower difficulty, then by lower semester, a missing difficulty or
  semester being the worst value. \<open>at_least_as_good a b\<close>: the value \<open>a\<close> is no worse
  than \<open>b\<close>.
\<close>

fun at_least_as_good :: "int option \<Rightarrow> int option \<Rightarrow> bool" where
  "at_least_as_good a None = True"
| "at_least_as_good None (Some y) = False"
| "at_least_as_good (Some x) (Some y) = (x \<le> y)"

definition spec_rank_ge :: "candidate \<Rightarrow> candidate \<Rightarrow> bool" where
  "spec_rank_ge a b =
     (length (matched_interests b) < length (matched_interests a)
      \<or> (length (matched_interests a) = length (matched_interests b)
          \<and> at_least_as_good (difficulty (meta a)) (difficulty (meta b))
          \<and> (difficulty (meta a) \<noteq> difficulty (meta b)
              \<or> at_least_as_good (semester (meta a)) (semester (meta b)))))"

section \<open>Stores\<close>

text \<open>
  The predicates whose domain the ingestion declares as Student; in a store it builds,
  only a student is the subject of one.
\<close>

definition student_props :: "node list" where
  "student_props = map as_uri [''takesCourse'', ''hasInterest'', ''targetSemester'',
                               ''maxCredits'', ''maxDifficulty'', ''preferredTrack'']"

definition is_student :: "graph \<Rightarrow> node \<Rightarrow> bool" where
  "is_student g s = (s \<in> set (subjects g RDF_type (as_uri ''Student'')))"

definition domain_ok :: "graph \<Rightarrow> bool" where
  "domain_ok g = list_all (\<lambda>t. is_student g (fst t) \<or> fst (snd t) \<notin> set student_props) g"

text \<open>Two runtimes: sets iterated in the order of their construction, and in reverse.\<close>

definition rt_fwd :: runtime where
  "rt_fwd = \<lparr>set_order = (\<lambda>xs. xs), int_text = (\<lambda>s. None)\<rparr>"

definition rt_rev :: runtime where
  "rt_rev = \<lparr>set_order = rev, int_text = (\<lambda>s. None)\<rparr>"

text \<open>Rows as the ingestion writes them.\<close>

definition node_rows :: "string \<Rightarrow> string \<Rightarrow> triple list" where
  "node_rows kind n = [(as_uri n, RDF_type, as_uri kind), (as_uri n, as_uri ''label'', Literal_str n)]"

definition edge :: "string \<Rightarrow> string \<Rightarrow> string \<Rightarrow> triple" where
  "edge a p b = (as_uri a, as_uri p, as_uri b)"

definition int_attr :: "string \<Rightarrow> string \<Rightarrow> int \<Rightarrow> triple" where
  "int_attr a p n = (as_uri a, as_uri p, Literal_int n)"

definition str_attr :: "string \<Rightarrow> string \<Rightarrow> string \<Rightarrow> triple" where
  "str_attr a p v = (as_uri a, as_uri p, Literal_str v)"

text \<open>
  The scenario of the specification: Ada with interest ML, CS101 taken and a budget of
  6; CS201 and CS202, each with prerequisite CS101, 4 credits and teaching ML. The two
  stores differ only in the order in which they enumerate CS201 and CS202.
\<close>

definition ada_rows :: graph where
  "ada_rows = node_rows ''Student'' ''Ada''
     @ [edge ''Ada'' ''takesCourse'' ''CS101'', edge ''Ada'' ''hasInterest'' ''ML'',
        int_attr ''Ada'' ''maxCredits'' 6]
     @ node_rows ''Skill'' ''ML'' @ node_rows ''Course'' ''CS101''"

definition ml_course :: "string \<Rightarrow> graph" where
  "ml_course c = node_rows ''Course'' c
     @ [int_attr c ''credits'' 4, edge c ''hasPrerequisite'' ''CS101'',
        edge c ''teachesSkill'' ''ML'']"

definition ada_graph :: graph where
  "ada_graph = ada_rows @ ml_course ''CS201'' @ ml_course ''CS202''"

definition ada_graph_swapped :: graph where
  "ada_graph_swapped = ada_rows @ ml_course ''CS202'' @ ml_course ''CS201''"

definition ada :: string where
  "ada = BASE @ ''Ada''"

text \<open>
  Cay has two interests, both taught by CS201, which the store lists as ML, then AI;
  one career requires ML, another a skill Cay does not have.
\<close>

definition cay_graph :: graph where
  "cay_graph = node_rows ''Student'' ''Cay''
     @ [edge ''Cay'' ''hasInterest'' ''ML'', edge ''Cay'' ''hasInterest'' ''AI'',
        int_attr ''Cay'' ''maxDifficulty'' 3]
     @ node_rows ''Skill'' ''ML'' @ node_rows ''Skill'' ''AI''
     @ node_rows ''Course'' ''CS201''
     @ [int_attr ''CS201'' ''difficulty'' 2,
        edge ''CS201'' ''teachesSkill'' ''ML'', edge ''CS201'' ''teachesSkill'' ''AI'']
     @ node_rows ''Career'' ''Analyst'' @ [edge ''Analyst'' ''requiresSkill'' ''ML'']
     @ node_rows ''Career'' ''Chef'' @ [edge ''Chef'' ''requiresSkill'' ''Cooking'']"

definition cay :: string where
  "cay = BASE @ ''Cay''"

text \<open>
  Eve has a credit budget \<open>b\<close> and one candidate, CS300, which has no credits value.
  Dan has two candidates of equal interest count: one without a difficulty, one of
  difficulty 1000.
\<close>

definition budget_graph :: "int \<Rightarrow> graph" where
  "budget_graph b = node_rows ''Student'' ''Eve''
     @ [edge ''Eve'' ''hasInterest'' ''ML'', int_attr ''Eve'' ''maxCredits'' b]
     @ node_rows ''Skill'' ''ML''
     @ node_rows ''Course'' ''CS300'' @ [edge ''CS300'' ''teachesSkill'' ''ML'']"

definition eve :: string where
  "eve = BASE @ ''Eve''"

definition dan_graph :: graph where
  "dan_graph = node_rows ''Student'' ''Dan'' @ [edge ''Dan'' ''hasInterest'' ''ML'']
     @ node_rows ''Skill'' ''ML''
     @ node_rows ''Course'' ''Open'' @ [edge ''Open'' ''teachesSkill'' ''ML'']
     @ node_rows ''Course'' ''Hard''
     @ [int_attr ''Hard'' ''difficulty'' 1000, edge ''Hard'' ''teachesSkill'' ''ML'']"

definition dan :: string where
  "dan = BASE @ ''Dan''"

text \<open>
  Fay has four candidates of equal interest count, which the store lists as Open (no
  difficulty, no semester), Mid (difficulty 3, semester 1), Late (difficulty 1,
  semester 4) and Early (difficulty 1, semester 2). Gus has two: Easy, of difficulty 0,
  and Mid, of difficulty 5. Ann has a budget of 8 and three candidates of equal score,
  A1, A2 and A3, of 4, 5 and 3 credits.
\<close>

definition ml_candidate :: "string \<Rightarrow> triple list \<Rightarrow> graph" where
  "ml_candidate c attrs = node_rows ''Course'' c @ attrs @ [edge c ''teachesSkill'' ''ML'']"

definition rank_graph :: graph where
  "rank_graph = node_rows ''Student'' ''Fay'' @ [edge ''Fay'' ''hasInterest'' ''ML'']
     @ node_rows ''Skill'' ''ML''
     @ ml_candidate ''Open'' []
     @ ml_candidate ''Mid'' [int_attr ''Mid'' ''difficulty'' 3, int_attr ''Mid'' ''semester'' 1]
     @ ml_candidate ''Late'' [int_attr ''Late'' ''difficulty'' 1, int_attr ''Late'' ''semester'' 4]
     @ ml_candidate ''Early'' [int_attr ''Early'' ''difficulty'' 1, int_attr ''Early'' ''semester'' 2]"

definition fay :: string where
  "fay = BASE @ ''Fay''"

definition zero_graph :: graph where
  "zero_graph = node_rows ''Student'' ''Gus'' @ [edge ''Gus'' ''hasInterest'' ''ML'']
     @ node_rows ''Skill'' ''ML''
     @ ml_candidate ''Easy'' [int_attr ''Easy'' ''difficulty'' 0]
     @ ml_candidate ''Mid'' [int_attr ''Mid'' ''difficulty'' 5]"

definition gus :: string where
  "gus = BASE @ ''Gus''"

definition ann_graph :: graph where
  "ann_graph = node_rows ''Student'' ''Ann''
     @ [edge ''Ann'' ''hasInterest'' ''ML'', int_attr ''Ann'' ''maxCredits'' 8]
     @ node_rows ''Skill'' ''ML''
     @ ml_candidate ''A1'' [int_attr ''A1'' ''credits'' 4]
     @ ml_candidate ''A2'' [int_attr ''A2'' ''credits'' 5]
     @ ml_candidate ''A3'' [int_attr ''A3'' ''credits'' 3]"

definition ann :: string where
  "ann = BASE @ ''Ann''"

text \<open>Projections of a result, to state what a call returns.\<close>

definition course_names :: "error + recommendation \<Rightarrow> error + string list" where
  "course_names x = map_sum id (\<lambda>r. map course (courses r)) x"

definition interest_path_lists :: "error + recommendation \<Rightarrow> error + string list list" where
  "interest_path_lists x = map_sum id (\<lambda>r. map (\<lambda>e. interest_paths (rc_explain e)) (courses r)) x"

definition label_credits :: "error + candidate list \<Rightarrow> error + (node \<times> string \<times> int) list" where
  "label_credits x = map_sum id (map (\<lambda>c. (course_uri c, course_label c, credits (meta c)))) x"

definition label_difficulty :: "error + candidate list \<Rightarrow> error + (string \<times> int option) list" where
  "label_difficulty x = map_sum id (map (\<lambda>c. (course_label c, difficulty (meta c)))) x"

definition rank_keys :: "error + candidate list \<Rightarrow> error + (string \<times> int option \<times> int option) list" where
  "rank_keys x = map_sum id (map (\<lambda>c. (course_label c, difficulty (meta c), semester (meta c)))) x"

definition budget_lines :: "error + recommendation \<Rightarrow> error + (string \<times> string) list" where
  "budget_lines x = map_sum id (\<lambda>r. map (\<lambda>e. (course e, budget_line (rc_explain e))) (courses r)) x"

definition selected_of :: "runtime \<Rightarrow> graph \<Rightarrow> string \<Rightarrow> error + candidate list" where
  "selected_of rt g student_iri =
     (case get_int rt g (URIRef student_iri) ''maxCredits'' of
        Inl e \<Rightarrow> Inl e
      | Inr max_credits \<Rightarrow> map_sum id (picked max_credits 0) (ranked_of rt g student_iri))"

definition selected_credits :: "runtime \<Rightarrow> graph \<Rightarrow> string \<Rightarrow> error + int" where
  "selected_credits rt g student_iri = map_sum id credit_sum (selected_of rt g student_iri)"

section \<open>Properties of the recommender\<close>

lemma mset_sort_reverse: "mset (sort_reverse f xs) = mset xs"
  by (simp add: sort_reverse_def)

lemma set_sort_reverse: "set (sort_reverse f xs) = set xs"
  by (simp add: sort_reverse_def)

lemma sorted_sort_reverse: "sorted_wrt (\<lambda>a b. f b \<le> f a) (sort_reverse f xs)"
proof -
  have "sorted (map f (sort_key f (rev xs)))" by simp
  then have "sorted_wrt (\<lambda>a b. f a \<le> f b) (sort_key f (rev xs))"
    by (simp add: sorted_map)
  then show ?thesis
    by (simp add: sort_reverse_def sorted_wrt_rev)
qed

lemma candidates_loop_set:
  "candidates_loop f cs = Inr xs \<Longrightarrow> x \<in> set xs \<Longrightarrow> \<exists>c \<in> set cs. f c = Inr (Some x)"
proof (induction cs arbitrary: xs)
  case Nil
  then show ?case by simp
next
  case (Cons c cs)
  then show ?case
    by (auto split: sum.splits option.splits)
qed

lemma recommend_Inr:
  assumes "recommend rt g sid = Inr r"
  obtains ts mc md cands where
    "get_int rt g (URIRef sid) ''targetSemester'' = Inr ts"
    "get_int rt g (URIRef sid) ''maxCredits'' = Inr mc"
    "get_int rt g (URIRef sid) ''maxDifficulty'' = Inr md"
    "candidates_of rt g (URIRef sid) ts mc md = Inr cands"
    "r = \<lparr>courses = select_loop mc 0 (ranked cands),
          careers = rec_careers_of rt g (URIRef sid),
          papers = rec_papers_of rt g (URIRef sid)\<rparr>"
  using assms unfolding recommend_def Let_def
  by (auto split: sum.splits)

lemma select_loop_set:
  "e \<in> set (select_loop mc t xs) \<Longrightarrow>
     \<exists>c \<in> set xs. course e = course_label c \<and> rc_matched_interests e = matched_interests c
        \<and> (\<exists>l. rc_explain e = (explain c)\<lparr>budget_line := l\<rparr>)"
proof (induction xs arbitrary: t)
  case Nil
  then show ?case by simp
next
  case (Cons x xs)
  then show ?case
    by (fastforce simp: Let_def rec_entry_def split: if_splits)
qed

lemma fst_semester_check: "fst (semester_check (Some t) (Some c)) = (c \<le> t)"
  by simp

lemma fst_difficulty_check: "fst (difficulty_check (Some t) (Some c)) = (c \<le> t)"
  by simp

lemma fst_track_check:
  "fst (track_check (Some p) (Some c)) = (p = [] \<or> c = [] \<or> c = p)"
  by (auto simp: track_check_def no_text_def)

lemma fst_constraint_checks:
  "fst (constraint_checks ts md pt mc t m) =
     (fst (semester_check ts (semester m)) \<and> fst (difficulty_check md (difficulty m))
      \<and> fst (track_check pt (track m)))"
  by (simp add: constraint_checks_def Let_def)

lemma course_meta_of_Inr:
  assumes "course_meta_of rt g c = Inr m"
  shows "get_int rt g c ''semester'' = Inr (semester m)"
    and "get_int rt g c ''difficulty'' = Inr (difficulty m)"
    and "track m = get_str g c ''track''"
    and "\<exists>x. get_int rt g c ''credits'' = Inr x \<and> credits m = or_int x 0"
  using assms unfolding course_meta_of_def
  by (auto split: sum.splits)

lemma candidate_of_Some:
  assumes "candidate_of rt g s tk ins ts mc md pt c = Inr (Some x)"
  shows "c \<notin> set tk"
    and "matched_of g ins c \<noteq> []"
    and "set (objects g c (as_uri ''hasPrerequisite'')) \<subseteq> set tk"
    and "course_meta_of rt g c = Inr (meta x)"
    and "fst (constraint_checks ts md pt mc 0 (meta x))"
    and "course_uri x = c"
    and "course_label x = iri_to_label g c"
    and "matched_interests x = sort (map (iri_to_label g) (set_order rt (matched_of g ins c)))"
    and "score x = score_of (matched_of g ins c) (meta x)"
    and "interest_paths (explain x) =
           map (\<lambda>sk. interest_path (iri_to_label g s) (iri_to_label g sk) (iri_to_label g c))
             (set_order rt (matched_of g ins c))"
    and "prereq_paths (explain x) =
           map (\<lambda>p. prereq_path (iri_to_label g c) (iri_to_label g p) (iri_to_label g s))
             (sort_key (iri_to_label g) (set_order rt (objects g c (as_uri ''hasPrerequisite''))))"
  using assms unfolding candidate_of_def Let_def
  by (auto split: if_splits sum.splits)

lemma sort_valid_order:
  assumes "valid_order f"
  shows "sort (map h (f xs)) = sort (map h xs)"
proof -
  have "mset (map h (f xs)) = mset (map h xs)"
    using assms by (simp add: valid_order_def)
  then show ?thesis
    by (metis properties_for_sort sorted_sort mset_sort)
qed

text \<open>
  Claim C1. Every entry of the returned course list comes from a course node \<open>c\<close> of
  the store that the student has not taken, whose prerequisites the student has all
  taken, that teaches at least one of the student's interests (the entry's
  \<open>matched_interests\<close> are the labels of these skills, sorted), and that meets every
  known constraint: its semester is at most the target semester, its difficulty at most
  the maximal difficulty, and its track is the preferred track. The program holds a
  track for known when it is present and not the empty string.
\<close>

theorem course_inclusion_invariant:
  assumes "recommend rt g sid = Inr r"
    and "valid_order (set_order rt)"
    and "e \<in> set (courses r)"
  shows "\<exists>c. c \<in> set (subjects g RDF_type (as_uri ''Course''))
           \<and> course e = iri_to_label g c
           \<and> c \<notin> set (objects g (URIRef sid) (as_uri ''takesCourse''))
           \<and> set (objects g c (as_uri ''hasPrerequisite''))
               \<subseteq> set (objects g (URIRef sid) (as_uri ''takesCourse''))
           \<and> set (objects g c (as_uri ''teachesSkill''))
               \<inter> set (objects g (URIRef sid) (as_uri ''hasInterest'')) \<noteq> {}
           \<and> rc_matched_interests e =
               sort (map (iri_to_label g)
                 (filter (\<lambda>sk. sk \<in> set (objects g (URIRef sid) (as_uri ''hasInterest'')))
                    (objects g c (as_uri ''teachesSkill''))))
           \<and> (\<forall>t x. get_int rt g (URIRef sid) ''targetSemester'' = Inr (Some t)
                  \<and> get_int rt g c ''semester'' = Inr (Some x) \<longrightarrow> x \<le> t)
           \<and> (\<forall>t x. get_int rt g (URIRef sid) ''maxDifficulty'' = Inr (Some t)
                  \<and> get_int rt g c ''difficulty'' = Inr (Some x) \<longrightarrow> x \<le> t)
           \<and> (\<forall>p t. get_str g (URIRef sid) ''preferredTrack'' = Some p
                  \<and> get_str g c ''track'' = Some t \<and> p \<noteq> [] \<and> t \<noteq> [] \<longrightarrow> t = p)"
proof -
  let ?s = "URIRef sid"
  from assms(1) obtain ts mc md cands where
    ts: "get_int rt g ?s ''targetSemester'' = Inr ts" and
    md: "get_int rt g ?s ''maxDifficulty'' = Inr md" and
    cands: "candidates_of rt g ?s ts mc md = Inr cands" and
    r: "r = \<lparr>courses = select_loop mc 0 (ranked cands),
            careers = rec_careers_of rt g ?s, papers = rec_papers_of rt g ?s\<rparr>"
    by (rule recommend_Inr)
  from assms(3) r have "e \<in> set (select_loop mc 0 (ranked cands))" by simp
  then obtain x where x: "x \<in> set (ranked cands)" "course e = course_label x"
      "rc_matched_interests e = matched_interests x"
    using select_loop_set by blast
  from x(1) have "x \<in> set cands" by (simp add: ranked_def set_sort_reverse)
  with cands obtain c where c: "c \<in> set (subjects g RDF_type (as_uri ''Course''))"
    and cx: "candidate_of rt g ?s (taken_of g ?s) (interests_of g ?s) ts mc md
               (get_str g ?s ''preferredTrack'') c = Inr (Some x)"
    unfolding candidates_of_def using candidates_loop_set by blast
  note f = candidate_of_Some[OF cx]
  have m: "matched_of g (interests_of g ?s) c \<noteq> []" by (rule f(2))
  have inter: "set (objects g c (as_uri ''teachesSkill''))
                 \<inter> set (objects g ?s (as_uri ''hasInterest'')) \<noteq> {}"
  proof -
    from m obtain sk where "sk \<in> set (matched_of g (interests_of g ?s) c)"
      by (cases "matched_of g (interests_of g ?s) c") auto
    then show ?thesis by (auto simp: matched_of_def interests_of_def)
  qed
  have mi: "rc_matched_interests e =
      sort (map (iri_to_label g)
        (filter (\<lambda>sk. sk \<in> set (objects g ?s (as_uri ''hasInterest'')))
           (objects g c (as_uri ''teachesSkill''))))"
    using x(3) f(8) sort_valid_order[OF assms(2)]
    by (simp add: matched_of_def interests_of_def)
  have chk: "fst (semester_check ts (semester (meta x)))"
       "fst (difficulty_check md (difficulty (meta x)))"
       "fst (track_check (get_str g ?s ''preferredTrack'') (track (meta x)))"
    using f(5) by (simp_all add: fst_constraint_checks)
  note cm = course_meta_of_Inr[OF f(4)]
  have sem: "\<forall>t x'. get_int rt g ?s ''targetSemester'' = Inr (Some t)
                  \<and> get_int rt g c ''semester'' = Inr (Some x') \<longrightarrow> x' \<le> t"
    using chk(1) ts cm(1) by (auto split: if_splits)
  have dif: "\<forall>t x'. get_int rt g ?s ''maxDifficulty'' = Inr (Some t)
                  \<and> get_int rt g c ''difficulty'' = Inr (Some x') \<longrightarrow> x' \<le> t"
    using chk(2) md cm(2) by (auto split: if_splits)
  have tr: "\<forall>p t. get_str g ?s ''preferredTrack'' = Some p
                  \<and> get_str g c ''track'' = Some t \<and> p \<noteq> [] \<and> t \<noteq> [] \<longrightarrow> t = p"
    using chk(3) cm(3) by (auto simp: fst_track_check)
  have lab: "course e = iri_to_label g c" using x(2) f(7) by simp
  have nt: "c \<notin> set (objects g ?s (as_uri ''takesCourse''))"
    using f(1) by (simp add: taken_of_def)
  have pre: "set (objects g c (as_uri ''hasPrerequisite''))
               \<subseteq> set (objects g ?s (as_uri ''takesCourse''))"
    using f(3) by (simp add: taken_of_def)
  show ?thesis
    by (intro exI[of _ c] conjI) (fact c lab nt pre inter mi sem dif tr)+
qed

lemma ranked_of_Inr:
  assumes "ranked_of rt g sid = Inr cs"
  obtains ts mc md cands where
    "get_int rt g (URIRef sid) ''targetSemester'' = Inr ts"
    "get_int rt g (URIRef sid) ''maxCredits'' = Inr mc"
    "get_int rt g (URIRef sid) ''maxDifficulty'' = Inr md"
    "candidates_of rt g (URIRef sid) ts mc md = Inr cands"
    "cs = ranked cands"
  using assms unfolding ranked_of_def Let_def
  by (auto split: sum.splits)

lemma recommend_ranked:
  assumes "recommend rt g sid = Inr r"
  shows "\<exists>mc cs. get_int rt g (URIRef sid) ''maxCredits'' = Inr mc \<and> ranked_of rt g sid = Inr cs
           \<and> courses r = select_loop mc 0 cs"
proof -
  from assms obtain ts mc md cands where
    "get_int rt g (URIRef sid) ''targetSemester'' = Inr ts"
    "get_int rt g (URIRef sid) ''maxCredits'' = Inr mc"
    "get_int rt g (URIRef sid) ''maxDifficulty'' = Inr md"
    "candidates_of rt g (URIRef sid) ts mc md = Inr cands"
    "r = \<lparr>courses = select_loop mc 0 (ranked cands),
          careers = rec_careers_of rt g (URIRef sid),
          papers = rec_papers_of rt g (URIRef sid)\<rparr>"
    by (rule recommend_Inr)
  then show ?thesis
    by (simp add: ranked_of_def)
qed

lemma ranked_recommend:
  assumes "ranked_of rt g sid = Inr cs" and "get_int rt g (URIRef sid) ''maxCredits'' = Inr mc"
  shows "\<exists>r. recommend rt g sid = Inr r \<and> courses r = select_loop mc 0 cs"
  using assms unfolding ranked_of_def recommend_def Let_def
  by (auto split: sum.splits)

lemma select_loop_picked:
  "list_all2 (\<lambda>e c. \<exists>l. e = rec_entry c l) (select_loop mc t cs) (picked mc t cs)"
  by (induction cs arbitrary: t) (auto simp: Let_def)

lemma length_select_loop: "length (select_loop mc t cs) = length (picked mc t cs)"
  by (induction cs arbitrary: t) (auto simp: Let_def)

lemma credit_sum_simps [simp]:
  "credit_sum [] = 0" "credit_sum (c # cs) = credits (meta c) + credit_sum cs"
  "credit_sum (xs @ ys) = credit_sum xs + credit_sum ys"
  by (simp_all add: credit_sum_def)

lemma select_loop_nth:
  "i < length (picked mc t cs) \<Longrightarrow>
     select_loop mc t cs ! i =
       rec_entry (picked mc t cs ! i)
         (selected_line mc (t + credit_sum (take i (picked mc t cs)))
            (credits (meta (picked mc t cs ! i))))"
proof (induction cs arbitrary: t i)
  case Nil
  then show ?case by simp
next
  case (Cons c cs)
  show ?case
  proof (cases "fits mc t (credits (meta c))")
    case True
    then show ?thesis
      using Cons by (cases i) (auto simp: Let_def add.assoc)
  next
    case False
    then show ?thesis using Cons by (simp add: Let_def)
  qed
qed

lemma foldl_greedy_step:
  "foldl (greedy_step mc) (t, acc) cs = (t + credit_sum (picked mc t cs), acc @ picked mc t cs)"
proof (induction cs arbitrary: t acc)
  case Nil
  then show ?case by simp
next
  case (Cons c cs)
  then show ?case
    by (cases mc) (simp_all add: greedy_step_def fits_def Let_def add.assoc)
qed

lemma greedy_rule_picked: "greedy_rule mc cs = picked mc 0 cs"
  by (simp add: greedy_rule_def foldl_greedy_step)

lemma picked_sum:
  "picked (Some m) t cs \<noteq> [] \<Longrightarrow> t + credit_sum (picked (Some m) t cs) \<le> m"
proof (induction cs arbitrary: t)
  case Nil
  then show ?case by simp
next
  case (Cons c cs)
  show ?case
  proof (cases "fits (Some m) t (credits (meta c))")
    case True
    show ?thesis
    proof (cases "picked (Some m) (t + credits (meta c)) cs = []")
      case True
      with \<open>fits (Some m) t (credits (meta c))\<close> show ?thesis
        by (simp add: Let_def fits_def)
    next
      case False
      from Cons.IH[OF False] \<open>fits (Some m) t (credits (meta c))\<close> show ?thesis
        by (simp add: Let_def add.assoc)
    qed
  next
    case False
    with Cons show ?thesis by (simp add: Let_def)
  qed
qed

lemma picked_append:
  "picked mc t (xs @ ys) = picked mc t xs @ picked mc (t + credit_sum (picked mc t xs)) ys"
  by (induction xs arbitrary: t) (auto simp: Let_def add.assoc)

lemma select_loop_append:
  "select_loop mc t (xs @ ys) =
     select_loop mc t xs @ select_loop mc (t + credit_sum (picked mc t xs)) ys"
  by (induction xs arbitrary: t) (auto simp: Let_def add.assoc)

text \<open>
  Claim C2, amended. When the student has a budget \<open>m\<close>, the returned courses are, entry
  by entry, the candidates the greedy rule of the specification selects from the ranked
  list, and the sum of their credits is at most \<open>m\<close> whenever \<open>m\<close> is not negative or some
  course is returned.
\<close>

theorem budget_greedy:
  assumes "recommend rt g sid = Inr r"
    and "get_int rt g (URIRef sid) ''maxCredits'' = Inr (Some m)"
  shows "\<exists>cs. ranked_of rt g sid = Inr cs
           \<and> list_all2 (\<lambda>e c. \<exists>l. e = rec_entry c l) (courses r) (greedy_rule (Some m) cs)
           \<and> (0 \<le> m \<or> courses r \<noteq> [] \<longrightarrow> credit_sum (greedy_rule (Some m) cs) \<le> m)"
proof -
  from recommend_ranked[OF assms(1)] assms(2) obtain cs where
    cs: "ranked_of rt g sid = Inr cs" and r: "courses r = select_loop (Some m) 0 cs"
    by auto
  have a: "list_all2 (\<lambda>e c. \<exists>l. e = rec_entry c l) (courses r) (greedy_rule (Some m) cs)"
    by (simp add: r greedy_rule_picked select_loop_picked)
  have b: "0 \<le> m \<or> courses r \<noteq> [] \<longrightarrow> credit_sum (greedy_rule (Some m) cs) \<le> m"
  proof (cases "picked (Some m) 0 cs = []")
    case True
    then have "courses r = []"
      using length_select_loop[of "Some m" 0 cs] by (simp add: r)
    with True show ?thesis by (simp add: greedy_rule_picked)
  next
    case False
    from picked_sum[OF False] show ?thesis by (simp add: greedy_rule_picked)
  qed
  from cs a b show ?thesis by blast
qed

lemma last_selected_line: "last (selected_line mc t c) = CHR ''D''"
  by (cases mc) (simp_all add: selected_line_def)

lemma last_tentative_budget_line: "last (tentative_budget_line mc t c) \<noteq> CHR ''D''"
  by (cases mc) (simp_all add: tentative_budget_line_def)

lemma selected_not_tentative: "selected_line mc t c \<noteq> tentative_budget_line mc' t' c'"
  using last_selected_line[of mc t c] last_tentative_budget_line[of mc' t' c']
  by auto

lemma budget_line_rec_entry [simp]: "budget_line (rc_explain (rec_entry c l)) = l"
  by (simp add: rec_entry_def)

lemma picked_fits:
  "i < length (picked mc t cs) \<Longrightarrow>
     fits mc (t + credit_sum (take i (picked mc t cs))) (credits (meta (picked mc t cs ! i)))"
proof (induction cs arbitrary: t i)
  case Nil
  then show ?case by simp
next
  case (Cons c cs)
  show ?case
  proof (cases "fits mc t (credits (meta c))")
    case True
    show ?thesis
    proof (cases i)
      case 0
      with True show ?thesis by (simp add: Let_def)
    next
      case (Suc n)
      with Cons.prems True have "n < length (picked mc (t + credits (meta c)) cs)"
        by (simp add: Let_def)
      from Cons.IH[OF this] True Suc show ?thesis
        by (simp add: Let_def add.assoc)
    qed
  next
    case False
    then show ?thesis using Cons by (simp add: Let_def)
  qed
qed

text \<open>
  Claim C7. The \<open>i\<close>-th returned course is the \<open>i\<close>-th candidate the greedy pass selects,
  and its budget line is the line of that selection, character by character: the
  credits of the course, the running total of the credits selected before it, the
  budget, which this sum respects, and the word SELECTED. No returned budget line is
  the line that the constraint checks wrote, in either of its two forms.
\<close>

theorem budget_line_final:
  assumes "recommend rt g sid = Inr r"
  shows "\<exists>mc cs. get_int rt g (URIRef sid) ''maxCredits'' = Inr mc
           \<and> ranked_of rt g sid = Inr cs
           \<and> length (courses r) = length (greedy_rule mc cs)
           \<and> (\<forall>i < length (courses r).
                 course (courses r ! i) = course_label (greedy_rule mc cs ! i)
                 \<and> (mc = None \<longrightarrow>
                      budget_line (rc_explain (courses r ! i)) =
                        ''credits: course='' @ str_int (credits (meta (greedy_rule mc cs ! i)))
                        @ '', current_total='' @ str_int (credit_sum (take i (greedy_rule mc cs)))
                        @ '', max=None => SELECTED'')
                 \<and> (\<forall>m. mc = Some m \<longrightarrow>
                      credit_sum (take i (greedy_rule mc cs))
                        + credits (meta (greedy_rule mc cs ! i)) \<le> m
                      \<and> budget_line (rc_explain (courses r ! i)) =
                        ''credits: course='' @ str_int (credits (meta (greedy_rule mc cs ! i)))
                        @ '', current_total='' @ str_int (credit_sum (take i (greedy_rule mc cs)))
                        @ '' + '' @ str_int (credits (meta (greedy_rule mc cs ! i)))
                        @ '' '' @ [CHR 0xE2, CHR 0x89, CHR 0xA4] @ '' max='' @ str_int m
                        @ '' => SELECTED''))
           \<and> (\<forall>e \<in> set (courses r).
                 (\<forall>ts md pt mc' t m.
                    budget_line (rc_explain e) \<noteq> snd (snd (constraint_checks ts md pt mc' t m)))
                 \<and> (\<forall>c t. budget_line (rc_explain e) \<noteq>
                      ''credits: course='' @ str_int c @ '', current_total='' @ str_int t
                      @ '', max=None => selected by relevance'')
                 \<and> (\<forall>c t m. budget_line (rc_explain e) \<noteq>
                      ''credits: course='' @ str_int c @ '', current_total='' @ str_int t
                      @ '', max='' @ str_int m @ '' => decision during selection''))"
proof -
  from recommend_ranked[OF assms] obtain mc cs where
    mc: "get_int rt g (URIRef sid) ''maxCredits'' = Inr mc" and
    cs: "ranked_of rt g sid = Inr cs" and r: "courses r = select_loop mc 0 cs"
    by auto
  let ?sel = "greedy_rule mc cs"
  have len: "length (courses r) = length ?sel"
    by (simp add: r greedy_rule_picked length_select_loop)
  have ent: "\<forall>i < length (courses r).
               courses r ! i = rec_entry (?sel ! i)
                 (selected_line mc (credit_sum (take i ?sel)) (credits (meta (?sel ! i))))"
    using select_loop_nth[of _ mc 0 cs]
    by (simp add: r greedy_rule_picked length_select_loop)
  have fit: "\<forall>i < length (courses r).
               fits mc (credit_sum (take i ?sel)) (credits (meta (?sel ! i)))"
    using picked_fits[of _ mc 0 cs]
    by (simp add: r greedy_rule_picked length_select_loop)
  have nth: "\<forall>i < length (courses r).
                 course (courses r ! i) = course_label (?sel ! i)
                 \<and> (mc = None \<longrightarrow>
                      budget_line (rc_explain (courses r ! i)) =
                        ''credits: course='' @ str_int (credits (meta (?sel ! i)))
                        @ '', current_total='' @ str_int (credit_sum (take i ?sel))
                        @ '', max=None => SELECTED'')
                 \<and> (\<forall>m. mc = Some m \<longrightarrow>
                      credit_sum (take i ?sel) + credits (meta (?sel ! i)) \<le> m
                      \<and> budget_line (rc_explain (courses r ! i)) =
                        ''credits: course='' @ str_int (credits (meta (?sel ! i)))
                        @ '', current_total='' @ str_int (credit_sum (take i ?sel))
                        @ '' + '' @ str_int (credits (meta (?sel ! i)))
                        @ '' '' @ [CHR 0xE2, CHR 0x89, CHR 0xA4] @ '' max='' @ str_int m
                        @ '' => SELECTED'')"
  proof (intro allI impI)
    fix i assume i: "i < length (courses r)"
    from ent i have e: "courses r ! i = rec_entry (?sel ! i)
                 (selected_line mc (credit_sum (take i ?sel)) (credits (meta (?sel ! i))))"
      by blast
    from fit i have f: "fits mc (credit_sum (take i ?sel)) (credits (meta (?sel ! i)))"
      by blast
    show "course (courses r ! i) = course_label (?sel ! i)
                 \<and> (mc = None \<longrightarrow>
                      budget_line (rc_explain (courses r ! i)) =
                        ''credits: course='' @ str_int (credits (meta (?sel ! i)))
                        @ '', current_total='' @ str_int (credit_sum (take i ?sel))
                        @ '', max=None => SELECTED'')
                 \<and> (\<forall>m. mc = Some m \<longrightarrow>
                      credit_sum (take i ?sel) + credits (meta (?sel ! i)) \<le> m
                      \<and> budget_line (rc_explain (courses r ! i)) =
                        ''credits: course='' @ str_int (credits (meta (?sel ! i)))
                        @ '', current_total='' @ str_int (credit_sum (take i ?sel))
                        @ '' + '' @ str_int (credits (meta (?sel ! i)))
                        @ '' '' @ [CHR 0xE2, CHR 0x89, CHR 0xA4] @ '' max='' @ str_int m
                        @ '' => SELECTED'')"
      using f unfolding e
      by (cases mc) (simp_all add: rec_entry_def selected_line_def le_sign_def fits_def)
  qed
  have nt: "\<forall>e \<in> set (courses r).
                 (\<forall>ts md pt mc' t m.
                    budget_line (rc_explain e) \<noteq> snd (snd (constraint_checks ts md pt mc' t m)))
                 \<and> (\<forall>c t. budget_line (rc_explain e) \<noteq>
                      ''credits: course='' @ str_int c @ '', current_total='' @ str_int t
                      @ '', max=None => selected by relevance'')
                 \<and> (\<forall>c t m. budget_line (rc_explain e) \<noteq>
                      ''credits: course='' @ str_int c @ '', current_total='' @ str_int t
                      @ '', max='' @ str_int m @ '' => decision during selection'')"
  proof
    fix e assume "e \<in> set (courses r)"
    then obtain i where i: "i < length (courses r)" "e = courses r ! i"
      by (auto simp: in_set_conv_nth)
    with ent have l: "budget_line (rc_explain e) =
        selected_line mc (credit_sum (take i ?sel)) (credits (meta (?sel ! i)))"
      by simp
    have a: "\<forall>ts md pt mc' t m.
                    budget_line (rc_explain e) \<noteq> snd (snd (constraint_checks ts md pt mc' t m))"
      unfolding l by (simp add: constraint_checks_def Let_def selected_not_tentative)
    have b: "\<forall>c t. budget_line (rc_explain e) \<noteq>
                      ''credits: course='' @ str_int c @ '', current_total='' @ str_int t
                      @ '', max=None => selected by relevance''"
      unfolding l using selected_not_tentative[of mc _ _ None]
      by (simp add: tentative_budget_line_def)
    have c: "\<forall>c t m. budget_line (rc_explain e) \<noteq>
                      ''credits: course='' @ str_int c @ '', current_total='' @ str_int t
                      @ '', max='' @ str_int m @ '' => decision during selection''"
      unfolding l using selected_not_tentative[of mc _ _ "Some _"]
      by (simp add: tentative_budget_line_def)
    from a b c show "(\<forall>ts md pt mc' t m.
                    budget_line (rc_explain e) \<noteq> snd (snd (constraint_checks ts md pt mc' t m)))
                 \<and> (\<forall>c t. budget_line (rc_explain e) \<noteq>
                      ''credits: course='' @ str_int c @ '', current_total='' @ str_int t
                      @ '', max=None => selected by relevance'')
                 \<and> (\<forall>c t m. budget_line (rc_explain e) \<noteq>
                      ''credits: course='' @ str_int c @ '', current_total='' @ str_int t
                      @ '', max='' @ str_int m @ '' => decision during selection'')"
      by blast
  qed
  show ?thesis
    by (intro exI[of _ mc] exI[of _ cs] conjI) (fact mc cs len nth nt)+
qed

lemma ranked_of_candidate:
  assumes "ranked_of rt g sid = Inr cs" and "x \<in> set cs"
  shows "course_meta_of rt g (course_uri x) = Inr (meta x)"
proof -
  from assms(1) obtain ts mc md cands where
    c: "candidates_of rt g (URIRef sid) ts mc md = Inr cands" and cs: "cs = ranked cands"
    by (rule ranked_of_Inr)
  from assms(2) cs have "x \<in> set cands" by (simp add: ranked_def set_sort_reverse)
  with c obtain cu where
    "candidate_of rt g (URIRef sid) (taken_of g (URIRef sid)) (interests_of g (URIRef sid))
       ts mc md (get_str g (URIRef sid) ''preferredTrack'') cu = Inr (Some x)"
    unfolding candidates_of_def using candidates_loop_set by blast
  from candidate_of_Some(4,6)[OF this] show ?thesis by simp
qed

text \<open>
  Claim C10, amended. When the student has no budget or a budget that is not negative,
  a ranked candidate whose course has no credits value, or the value 0, counts 0
  credits and is selected wherever it stands in the ranked list, and the candidates
  after it are walked with the running total it was reached with.
\<close>

theorem zero_credit_selected:
  assumes "ranked_of rt g sid = Inr (pre @ item # post)"
    and "get_int rt g (URIRef sid) ''maxCredits'' = Inr mc"
    and "mc = None \<or> (\<exists>m. mc = Some m \<and> 0 \<le> m)"
    and "get_int rt g (course_uri item) ''credits'' = Inr None
         \<or> get_int rt g (course_uri item) ''credits'' = Inr (Some 0)"
  shows "credits (meta item) = 0
         \<and> (\<exists>r. recommend rt g sid = Inr r
               \<and> courses r =
                   select_loop mc 0 pre
                   @ rec_entry item (selected_line mc (credit_sum (picked mc 0 pre)) 0)
                   # select_loop mc (credit_sum (picked mc 0 pre)) post)"
proof -
  have "course_meta_of rt g (course_uri item) = Inr (meta item)"
    using ranked_of_candidate[OF assms(1)] by simp
  from course_meta_of_Inr(4)[OF this] assms(4) have z: "credits (meta item) = 0"
    by (auto simp: or_int_def)
  have fit: "fits mc (credit_sum (picked mc 0 pre)) 0"
  proof (cases mc)
    case None
    then show ?thesis by (simp add: fits_def)
  next
    case (Some m)
    with assms(3) have m: "0 \<le> m" by simp
    show ?thesis
    proof (cases "picked (Some m) 0 pre = []")
      case True
      with m Some show ?thesis by (simp add: fits_def)
    next
      case False
      from picked_sum[OF False] Some show ?thesis by (simp add: fits_def)
    qed
  qed
  from ranked_recommend[OF assms(1,2)] obtain r where
    r: "recommend rt g sid = Inr r" "courses r = select_loop mc 0 (pre @ item # post)"
    by blast
  have "select_loop mc 0 (pre @ item # post) =
          select_loop mc 0 pre
          @ rec_entry item (selected_line mc (credit_sum (picked mc 0 pre)) 0)
          # select_loop mc (credit_sum (picked mc 0 pre)) post"
    using fit z by (simp add: select_loop_append Let_def)
  with r z show ?thesis by simp
qed

lemma length_valid_order: "valid_order f \<Longrightarrow> length (f xs) = length xs"
  by (metis valid_order_def size_mset)

lemma ranked_of_score:
  assumes "ranked_of rt g sid = Inr cs" and "valid_order (set_order rt)" and "x \<in> set cs"
  shows "score x = (int (length (matched_interests x)), - or_int (difficulty (meta x)) 999,
                    - or_int (semester (meta x)) 999)"
proof -
  from assms(1) obtain ts mc md cands where
    c: "candidates_of rt g (URIRef sid) ts mc md = Inr cands" and cs: "cs = ranked cands"
    by (rule ranked_of_Inr)
  from assms(3) cs have "x \<in> set cands" by (simp add: ranked_def set_sort_reverse)
  with c obtain cu where
    "candidate_of rt g (URIRef sid) (taken_of g (URIRef sid)) (interests_of g (URIRef sid))
       ts mc md (get_str g (URIRef sid) ''preferredTrack'') cu = Inr (Some x)"
    unfolding candidates_of_def using candidates_loop_set by blast
  from candidate_of_Some(8,9)[OF this] show ?thesis
    by (simp add: score_of_def length_valid_order[OF assms(2)])
qed

lemma score_le_spec:
  assumes "score a = (int (length (matched_interests a)), - or_int (difficulty (meta a)) 999,
                      - or_int (semester (meta a)) 999)"
    and "score b = (int (length (matched_interests b)), - or_int (difficulty (meta b)) 999,
                    - or_int (semester (meta b)) 999)"
    and "\<forall>d. difficulty (meta a) = Some d \<longrightarrow> 0 < d \<and> d < 999"
    and "\<forall>d. difficulty (meta b) = Some d \<longrightarrow> 0 < d \<and> d < 999"
    and "\<forall>n. semester (meta a) = Some n \<longrightarrow> 0 < n \<and> n < 999"
    and "\<forall>n. semester (meta b) = Some n \<longrightarrow> 0 < n \<and> n < 999"
    and "score b \<le> score a"
  shows "spec_rank_ge a b"
proof -
  obtain da db sa sb where o: "difficulty (meta a) = da" "difficulty (meta b) = db"
    "semester (meta a) = sa" "semester (meta b) = sb" by blast
  show ?thesis
    using assms unfolding spec_rank_ge_def o
    by (cases da; cases db; cases sa; cases sb)
       (auto simp: less_eq_prod_def or_int_def split: if_splits)
qed

lemma sort_reverse_stable:
  "filter (\<lambda>y. f y = k) (sort_reverse f xs) = filter (\<lambda>y. f y = k) xs"
proof -
  have "filter (\<lambda>y. f y = k) (rev (sort_key f (rev xs)))
          = rev (filter (\<lambda>y. f y = k) (sort_key f (rev xs)))"
    by (simp add: rev_filter)
  also have "\<dots> = rev (filter (\<lambda>y. f y = k) (rev xs))"
    by (simp add: sort_key_stable)
  also have "\<dots> = filter (\<lambda>y. f y = k) xs"
    by (simp add: rev_filter)
  finally show ?thesis by (simp add: sort_reverse_def)
qed

text \<open>
  Claim C4, amended. The ranked list is a rearrangement of the surviving candidates,
  candidates of equal score keeping their order, in descending order of the triple
  (count of matched interests, minus difficulty, minus semester), where a missing
  difficulty or semester counts as 999 and a known one that is not 0 as itself; the
  statement is silent on a known value of 0. When every known difficulty and semester of
  a candidate lies strictly between 0 and 999, this is the order of the specification,
  in which a missing value is the worst.
\<close>

theorem ranking_by_score:
  assumes "ranked_of rt g sid = Inr cs" and "valid_order (set_order rt)"
  shows "(\<exists>ts mc md cands.
            get_int rt g (URIRef sid) ''targetSemester'' = Inr ts
            \<and> get_int rt g (URIRef sid) ''maxCredits'' = Inr mc
            \<and> get_int rt g (URIRef sid) ''maxDifficulty'' = Inr md
            \<and> candidates_of rt g (URIRef sid) ts mc md = Inr cands
            \<and> mset cs = mset cands
            \<and> (\<forall>k. filter (\<lambda>c. score c = k) cs = filter (\<lambda>c. score c = k) cands))
         \<and> sorted_wrt (\<lambda>a b. score b \<le> score a) cs
         \<and> (\<forall>c \<in> set cs. fst (score c) = int (length (matched_interests c))
                \<and> (difficulty (meta c) = None \<longrightarrow> fst (snd (score c)) = - 999)
                \<and> (\<forall>d. difficulty (meta c) = Some d \<and> d \<noteq> 0 \<longrightarrow> fst (snd (score c)) = - d)
                \<and> (semester (meta c) = None \<longrightarrow> snd (snd (score c)) = - 999)
                \<and> (\<forall>n. semester (meta c) = Some n \<and> n \<noteq> 0 \<longrightarrow> snd (snd (score c)) = - n))
         \<and> ((\<forall>c \<in> set cs. (\<forall>d. difficulty (meta c) = Some d \<longrightarrow> 0 < d \<and> d < 999)
                           \<and> (\<forall>n. semester (meta c) = Some n \<longrightarrow> 0 < n \<and> n < 999))
              \<longrightarrow> sorted_wrt spec_rank_ge cs)"
proof -
  from assms(1) obtain ts mc md cands where
    g: "get_int rt g (URIRef sid) ''targetSemester'' = Inr ts"
       "get_int rt g (URIRef sid) ''maxCredits'' = Inr mc"
       "get_int rt g (URIRef sid) ''maxDifficulty'' = Inr md"
       "candidates_of rt g (URIRef sid) ts mc md = Inr cands" and
    cs: "cs = ranked cands"
    by (rule ranked_of_Inr)
  have p: "mset cs = mset cands"
    by (simp add: cs ranked_def mset_sort_reverse)
  have st: "\<forall>k. filter (\<lambda>c. score c = k) cs = filter (\<lambda>c. score c = k) cands"
    by (simp add: cs ranked_def sort_reverse_stable)
  have ex: "\<exists>ts mc md cands.
            get_int rt g (URIRef sid) ''targetSemester'' = Inr ts
            \<and> get_int rt g (URIRef sid) ''maxCredits'' = Inr mc
            \<and> get_int rt g (URIRef sid) ''maxDifficulty'' = Inr md
            \<and> candidates_of rt g (URIRef sid) ts mc md = Inr cands
            \<and> mset cs = mset cands
            \<and> (\<forall>k. filter (\<lambda>c. score c = k) cs = filter (\<lambda>c. score c = k) cands)"
    by (intro exI[of _ ts] exI[of _ mc] exI[of _ md] exI[of _ cands] conjI) (fact g p st)+
  have s: "sorted_wrt (\<lambda>a b. score b \<le> score a) cs"
    by (simp add: cs ranked_def sorted_sort_reverse)
  have sc: "\<forall>c \<in> set cs. score c = (int (length (matched_interests c)),
                                    - or_int (difficulty (meta c)) 999,
                                    - or_int (semester (meta c)) 999)"
    using ranked_of_score[OF assms] by blast
  have sk: "\<forall>c \<in> set cs. fst (score c) = int (length (matched_interests c))
                \<and> (difficulty (meta c) = None \<longrightarrow> fst (snd (score c)) = - 999)
                \<and> (\<forall>d. difficulty (meta c) = Some d \<and> d \<noteq> 0 \<longrightarrow> fst (snd (score c)) = - d)
                \<and> (semester (meta c) = None \<longrightarrow> snd (snd (score c)) = - 999)
                \<and> (\<forall>n. semester (meta c) = Some n \<and> n \<noteq> 0 \<longrightarrow> snd (snd (score c)) = - n)"
    using sc by (simp add: or_int_def)
  have sp: "(\<forall>c \<in> set cs. (\<forall>d. difficulty (meta c) = Some d \<longrightarrow> 0 < d \<and> d < 999)
                           \<and> (\<forall>n. semester (meta c) = Some n \<longrightarrow> 0 < n \<and> n < 999))
              \<longrightarrow> sorted_wrt spec_rank_ge cs"
  proof
    assume b: "\<forall>c \<in> set cs. (\<forall>d. difficulty (meta c) = Some d \<longrightarrow> 0 < d \<and> d < 999)
                           \<and> (\<forall>n. semester (meta c) = Some n \<longrightarrow> 0 < n \<and> n < 999)"
    show "sorted_wrt spec_rank_ge cs"
    proof (rule sorted_wrt_mono_rel[OF _ s])
      fix x y
      assume "x \<in> set cs" "y \<in> set cs" "score y \<le> score x"
      with sc b show "spec_rank_ge x y"
        by (intro score_le_spec) auto
    qed
  qed
  show ?thesis
    by (intro conjI) (fact ex s sk sp)+
qed

lemma career_career_of [simp]: "career (career_of rt g s tk ins av car) = iri_to_label g car"
  by (simp add: career_of_def Let_def)

lemma set_gained_of:
  "set (gained_of g s) = (\<Union>c \<in> set (taken_of g s). set (objects g c (as_uri ''teachesSkill'')))"
  by (simp add: gained_of_def)

lemma career_matched_Nil:
  "(career_matched g av car \<noteq> []) =
     (set (objects g car (as_uri ''requiresSkill'')) \<inter> set av \<noteq> {})"
  by (auto simp: career_matched_def filter_empty_conv)

text \<open>
  Claim C8. The careers returned are exactly the career nodes whose required skills
  meet the student's interests or the skills taught by a course the student has taken:
  the returned names are the labels of these nodes, each as often as a node of that
  label qualifies; so every qualifying node is returned, and every returned career is
  a qualifying node.
\<close>

theorem career_iff:
  assumes "recommend rt g sid = Inr r"
  shows "mset (map career (careers r)) =
         mset (map (iri_to_label g)
           (filter (\<lambda>car. set (objects g car (as_uri ''requiresSkill''))
                         \<inter> (set (objects g (URIRef sid) (as_uri ''hasInterest''))
                            \<union> (\<Union>c \<in> set (objects g (URIRef sid) (as_uri ''takesCourse'')).
                                  set (objects g c (as_uri ''teachesSkill'')))) \<noteq> {})
              (subjects g RDF_type (as_uri ''Career''))))
       \<and> (\<forall>car \<in> set (subjects g RDF_type (as_uri ''Career'')).
             set (objects g car (as_uri ''requiresSkill''))
               \<inter> (set (objects g (URIRef sid) (as_uri ''hasInterest''))
                  \<union> (\<Union>c \<in> set (objects g (URIRef sid) (as_uri ''takesCourse'')).
                        set (objects g c (as_uri ''teachesSkill'')))) \<noteq> {}
             \<longrightarrow> iri_to_label g car \<in> career ` set (careers r))
       \<and> (\<forall>e \<in> set (careers r).
             \<exists>car \<in> set (subjects g RDF_type (as_uri ''Career'')).
               career e = iri_to_label g car
               \<and> set (objects g car (as_uri ''requiresSkill''))
                   \<inter> (set (objects g (URIRef sid) (as_uri ''hasInterest''))
                      \<union> (\<Union>c \<in> set (objects g (URIRef sid) (as_uri ''takesCourse'')).
                            set (objects g c (as_uri ''teachesSkill'')))) \<noteq> {})"
proof -
  let ?q = "\<lambda>car. set (objects g car (as_uri ''requiresSkill''))
                         \<inter> (set (objects g (URIRef sid) (as_uri ''hasInterest''))
                            \<union> (\<Union>c \<in> set (objects g (URIRef sid) (as_uri ''takesCourse'')).
                                  set (objects g c (as_uri ''teachesSkill'')))) \<noteq> {}"
  let ?cars = "subjects g RDF_type (as_uri ''Career'')"
  from assms have r: "careers r = rec_careers_of rt g (URIRef sid)"
    by (elim recommend_Inr) simp
  have av: "set (remdups (interests_of g (URIRef sid) @ gained_of g (URIRef sid))) =
          set (objects g (URIRef sid) (as_uri ''hasInterest''))
          \<union> (\<Union>c \<in> set (objects g (URIRef sid) (as_uri ''takesCourse'')).
                set (objects g c (as_uri ''teachesSkill'')))"
    by (simp add: set_gained_of interests_of_def taken_of_def)
  have m: "mset (map career (careers r)) = mset (map (iri_to_label g) (filter ?q ?cars))"
    unfolding r rec_careers_of_def Let_def
    by (simp add: career_matched_Nil av multiset.map_comp comp_def del: set_remdups set_append)
  then have "set (map career (careers r)) = set (map (iri_to_label g) (filter ?q ?cars))"
    by (rule mset_eq_setD)
  then have st: "career ` set (careers r) = iri_to_label g ` {car \<in> set ?cars. ?q car}"
    by simp
  have a: "\<forall>car \<in> set ?cars. ?q car \<longrightarrow> iri_to_label g car \<in> career ` set (careers r)"
    unfolding st by blast
  have b: "\<forall>e \<in> set (careers r). \<exists>car \<in> set ?cars. career e = iri_to_label g car \<and> ?q car"
  proof
    fix e assume "e \<in> set (careers r)"
    then have "career e \<in> iri_to_label g ` {car \<in> set ?cars. ?q car}"
      using st by blast
    then show "\<exists>car \<in> set ?cars. career e = iri_to_label g car \<and> ?q car" by blast
  qed
  from m a b show ?thesis by blast
qed

lemma domain_ok_objects:
  assumes "domain_ok g" and "\<not> is_student g s" and "p \<in> set student_props"
  shows "objects g s p = []"
proof -
  have "filter (\<lambda>t. fst t = s \<and> fst (snd t) = p) g = []"
    using assms by (auto simp: domain_ok_def list_all_iff filter_empty_conv)
  then show ?thesis by (simp add: objects_def)
qed

lemma candidates_loop_None:
  "(\<And>c. c \<in> set cs \<Longrightarrow> f c = Inr None) \<Longrightarrow> candidates_loop f cs = Inr []"
  by (induction cs) auto

text \<open>
  Claim C9. In a store where only students are subjects of the student predicates, an
  identifier that is no student of the store gets the empty recommendation and no
  error, whatever the store holds otherwise.
\<close>

theorem unknown_student_empty:
  assumes "domain_ok g" and "\<not> is_student g (URIRef sid)"
  shows "recommend rt g sid = Inr \<lparr>courses = [], careers = [], papers = []\<rparr>"
proof -
  let ?s = "URIRef sid"
  note ob = domain_ok_objects[OF assms]
  have tk: "taken_of g ?s = []" and ins: "interests_of g ?s = []"
    by (simp_all add: taken_of_def interests_of_def ob student_props_def)
  have gi: "get_int rt g ?s ''targetSemester'' = Inr None"
       "get_int rt g ?s ''maxCredits'' = Inr None"
       "get_int rt g ?s ''maxDifficulty'' = Inr None"
    by (simp_all add: get_int_def value_of_def ob student_props_def)
  have cands: "candidates_of rt g ?s None None None = Inr []"
    unfolding candidates_of_def
    by (rule candidates_loop_None) (simp add: candidate_of_def matched_of_def tk ins)
  have car: "rec_careers_of rt g ?s = []"
    by (simp add: rec_careers_of_def gained_of_def career_matched_def tk ins)
  have pap: "rec_papers_of rt g ?s = []"
    by (simp add: rec_papers_of_def paper_matched_def ins)
  show ?thesis
    by (simp add: recommend_def gi cands car pap ranked_def sort_reverse_def)
qed

section \<open>The properties on concrete stores\<close>

lemma valid_order_fwd: "valid_order (set_order rt_fwd)"
  by (simp add: valid_order_def rt_fwd_def)

lemma valid_order_rev: "valid_order (set_order rt_rev)"
  by (simp add: valid_order_def rt_rev_def)

lemma course_names_Inr:
  "course_names x = Inr ns \<Longrightarrow> \<exists>r. x = Inr r \<and> map course (courses r) = ns"
  by (cases x) (auto simp: course_names_def)

lemma ada_courses: "course_names (recommend rt_fwd ada_graph ada) = Inr [''CS201'']"
  by code_simp

lemma ada_max_credits: "get_int rt_fwd ada_graph (URIRef ada) ''maxCredits'' = Inr (Some 6)"
  by code_simp

lemma ada_result:
  "\<exists>r e. recommend rt_fwd ada_graph ada = Inr r \<and> courses r = [e] \<and> course e = ''CS201''"
  using course_names_Inr[OF ada_courses] by auto

theorem course_inclusion_witness:
  "\<exists>r e. recommend rt_fwd ada_graph ada = Inr r \<and> valid_order (set_order rt_fwd)
     \<and> e \<in> set (courses r) \<and> course e = ''CS201''
     \<and> (\<exists>c. c \<in> set (subjects ada_graph RDF_type (as_uri ''Course''))
           \<and> course e = iri_to_label ada_graph c
           \<and> c \<notin> set (objects ada_graph (URIRef ada) (as_uri ''takesCourse''))
           \<and> set (objects ada_graph c (as_uri ''hasPrerequisite''))
               \<subseteq> set (objects ada_graph (URIRef ada) (as_uri ''takesCourse''))
           \<and> set (objects ada_graph c (as_uri ''teachesSkill''))
               \<inter> set (objects ada_graph (URIRef ada) (as_uri ''hasInterest'')) \<noteq> {}
           \<and> rc_matched_interests e =
               sort (map (iri_to_label ada_graph)
                 (filter (\<lambda>sk. sk \<in> set (objects ada_graph (URIRef ada) (as_uri ''hasInterest'')))
                    (objects ada_graph c (as_uri ''teachesSkill''))))
           \<and> (\<forall>t x. get_int rt_fwd ada_graph (URIRef ada) ''targetSemester'' = Inr (Some t)
                  \<and> get_int rt_fwd ada_graph c ''semester'' = Inr (Some x) \<longrightarrow> x \<le> t)
           \<and> (\<forall>t x. get_int rt_fwd ada_graph (URIRef ada) ''maxDifficulty'' = Inr (Some t)
                  \<and> get_int rt_fwd ada_graph c ''difficulty'' = Inr (Some x) \<longrightarrow> x \<le> t)
           \<and> (\<forall>p t. get_str ada_graph (URIRef ada) ''preferredTrack'' = Some p
                  \<and> get_str ada_graph c ''track'' = Some t \<and> p \<noteq> [] \<and> t \<noteq> [] \<longrightarrow> t = p))"
proof -
  from ada_result obtain r e where
    r: "recommend rt_fwd ada_graph ada = Inr r" and e: "courses r = [e]" "course e = ''CS201''"
    by blast
  from e have m: "e \<in> set (courses r)" by simp
  note c = course_inclusion_invariant[OF r valid_order_fwd m]
  show ?thesis
    by (intro exI[of _ r] exI[of _ e] conjI) (fact r valid_order_fwd m e(2) c)+
qed

theorem budget_greedy_witness:
  "\<exists>r. recommend rt_fwd ada_graph ada = Inr r
     \<and> get_int rt_fwd ada_graph (URIRef ada) ''maxCredits'' = Inr (Some 6)
     \<and> (\<exists>cs. ranked_of rt_fwd ada_graph ada = Inr cs
           \<and> list_all2 (\<lambda>e c. \<exists>l. e = rec_entry c l) (courses r) (greedy_rule (Some 6) cs)
           \<and> credit_sum (greedy_rule (Some 6) cs) \<le> 6)"
proof -
  from ada_result obtain r where r: "recommend rt_fwd ada_graph ada = Inr r" by blast
  from budget_greedy[OF r ada_max_credits] r ada_max_credits show ?thesis by auto
qed

lemma ann_lines:
  "budget_lines (recommend rt_fwd ann_graph ann) =
     Inr [(''A1'', ''credits: course=4, current_total=0 + 4 '' @ [CHR 0xE2, CHR 0x89, CHR 0xA4]
                   @ '' max=8 => SELECTED''),
          (''A3'', ''credits: course=3, current_total=4 + 3 '' @ [CHR 0xE2, CHR 0x89, CHR 0xA4]
                   @ '' max=8 => SELECTED'')]"
  by code_simp

lemma budget_lines_Inr:
  "budget_lines x = Inr ls \<Longrightarrow>
     \<exists>r. x = Inr r \<and> map (\<lambda>e. (course e, budget_line (rc_explain e))) (courses r) = ls"
  by (cases x) (auto simp: budget_lines_def)

theorem budget_line_final_witness:
  "\<exists>r. recommend rt_fwd ann_graph ann = Inr r
     \<and> map (\<lambda>e. (course e, budget_line (rc_explain e))) (courses r) =
         [(''A1'', ''credits: course=4, current_total=0 + 4 '' @ [CHR 0xE2, CHR 0x89, CHR 0xA4]
                   @ '' max=8 => SELECTED''),
          (''A3'', ''credits: course=3, current_total=4 + 3 '' @ [CHR 0xE2, CHR 0x89, CHR 0xA4]
                   @ '' max=8 => SELECTED'')]
     \<and> (\<exists>mc cs. get_int rt_fwd ann_graph (URIRef ann) ''maxCredits'' = Inr mc
           \<and> ranked_of rt_fwd ann_graph ann = Inr cs
           \<and> length (courses r) = length (greedy_rule mc cs)
           \<and> (\<forall>i < length (courses r).
                 course (courses r ! i) = course_label (greedy_rule mc cs ! i)
                 \<and> (mc = None \<longrightarrow>
                      budget_line (rc_explain (courses r ! i)) =
                        ''credits: course='' @ str_int (credits (meta (greedy_rule mc cs ! i)))
                        @ '', current_total='' @ str_int (credit_sum (take i (greedy_rule mc cs)))
                        @ '', max=None => SELECTED'')
                 \<and> (\<forall>m. mc = Some m \<longrightarrow>
                      credit_sum (take i (greedy_rule mc cs))
                        + credits (meta (greedy_rule mc cs ! i)) \<le> m
                      \<and> budget_line (rc_explain (courses r ! i)) =
                        ''credits: course='' @ str_int (credits (meta (greedy_rule mc cs ! i)))
                        @ '', current_total='' @ str_int (credit_sum (take i (greedy_rule mc cs)))
                        @ '' + '' @ str_int (credits (meta (greedy_rule mc cs ! i)))
                        @ '' '' @ [CHR 0xE2, CHR 0x89, CHR 0xA4] @ '' max='' @ str_int m
                        @ '' => SELECTED''))
           \<and> (\<forall>e \<in> set (courses r).
                 (\<forall>ts md pt mc' t m.
                    budget_line (rc_explain e) \<noteq> snd (snd (constraint_checks ts md pt mc' t m)))
                 \<and> (\<forall>c t. budget_line (rc_explain e) \<noteq>
                      ''credits: course='' @ str_int c @ '', current_total='' @ str_int t
                      @ '', max=None => selected by relevance'')
                 \<and> (\<forall>c t m. budget_line (rc_explain e) \<noteq>
                      ''credits: course='' @ str_int c @ '', current_total='' @ str_int t
                      @ '', max='' @ str_int m @ '' => decision during selection'')))"
proof -
  from budget_lines_Inr[OF ann_lines] obtain r where
    rl: "recommend rt_fwd ann_graph ann = Inr r
         \<and> map (\<lambda>e. (course e, budget_line (rc_explain e))) (courses r) =
         [(''A1'', ''credits: course=4, current_total=0 + 4 '' @ [CHR 0xE2, CHR 0x89, CHR 0xA4]
                   @ '' max=8 => SELECTED''),
          (''A3'', ''credits: course=3, current_total=4 + 3 '' @ [CHR 0xE2, CHR 0x89, CHR 0xA4]
                   @ '' max=8 => SELECTED'')]" ..
  note r = rl[THEN conjunct1] and l = rl[THEN conjunct2]
  note t = budget_line_final[OF r]
  show ?thesis
    by (intro exI[of _ r] conjI) (fact r l t)+
qed

lemma fay_ranked:
  "rank_keys (ranked_of rt_fwd rank_graph fay) =
     Inr [(''Early'', Some 1, Some 2), (''Late'', Some 1, Some 4),
          (''Mid'', Some 3, Some 1), (''Open'', None, None)]"
  by code_simp

lemma rank_keys_Inr:
  "rank_keys x = Inr ks \<Longrightarrow>
     \<exists>cs. x = Inr cs \<and> map (\<lambda>c. (course_label c, difficulty (meta c), semester (meta c))) cs = ks"
  by (cases x) (auto simp: rank_keys_def)

theorem ranking_by_score_witness:
  "\<exists>cs. ranked_of rt_fwd rank_graph fay = Inr cs \<and> valid_order (set_order rt_fwd)
     \<and> map (\<lambda>c. (course_label c, difficulty (meta c), semester (meta c))) cs =
         [(''Early'', Some 1, Some 2), (''Late'', Some 1, Some 4),
          (''Mid'', Some 3, Some 1), (''Open'', None, None)]
     \<and> (\<exists>ts mc md cands.
            get_int rt_fwd rank_graph (URIRef fay) ''targetSemester'' = Inr ts
            \<and> get_int rt_fwd rank_graph (URIRef fay) ''maxCredits'' = Inr mc
            \<and> get_int rt_fwd rank_graph (URIRef fay) ''maxDifficulty'' = Inr md
            \<and> candidates_of rt_fwd rank_graph (URIRef fay) ts mc md = Inr cands
            \<and> mset cs = mset cands
            \<and> (\<forall>k. filter (\<lambda>c. score c = k) cs = filter (\<lambda>c. score c = k) cands))
     \<and> sorted_wrt (\<lambda>a b. score b \<le> score a) cs
     \<and> sorted_wrt spec_rank_ge cs"
proof -
  from rank_keys_Inr[OF fay_ranked] obtain cs where
    ck: "ranked_of rt_fwd rank_graph fay = Inr cs
         \<and> map (\<lambda>c. (course_label c, difficulty (meta c), semester (meta c))) cs =
             [(''Early'', Some 1, Some 2), (''Late'', Some 1, Some 4),
              (''Mid'', Some 3, Some 1), (''Open'', None, None)]" ..
  note cs = ck[THEN conjunct1] and k = ck[THEN conjunct2]
  from k have b: "\<forall>c \<in> set cs. (\<forall>d. difficulty (meta c) = Some d \<longrightarrow> 0 < d \<and> d < 999)
                           \<and> (\<forall>n. semester (meta c) = Some n \<longrightarrow> 0 < n \<and> n < 999)"
    by (auto simp: map_eq_Cons_conv)
  note t = ranking_by_score[OF cs valid_order_fwd]
  note t1 = t[THEN conjunct1]
  note t2 = t[THEN conjunct2, THEN conjunct1]
  note t4 = t[THEN conjunct2, THEN conjunct2, THEN conjunct2, THEN mp, OF b]
  show ?thesis
    by (intro exI[of _ cs] conjI) (fact cs valid_order_fwd k t1 t2 t4)+
qed

text \<open>
  A known difficulty of 0 is ranked like a missing one, as \<^verbatim>\<open>x or 999\<close> takes 0 for
  missing: Easy, of difficulty 0, comes after Mid, of difficulty 5.
\<close>

lemma zero_difficulty_ranked_last:
  "label_difficulty (ranked_of rt_fwd zero_graph gus) = Inr [(''Mid'', Some 5), (''Easy'', Some 0)]"
  by code_simp

lemma label_credits_Inr:
  "label_credits x = Inr ls \<Longrightarrow>
     \<exists>cs. x = Inr cs \<and> map (\<lambda>c. (course_uri c, course_label c, credits (meta c))) cs = ls"
  by (cases x) (auto simp: label_credits_def)

lemma eve_ranked:
  "label_credits (ranked_of rt_fwd (budget_graph (- 1)) eve) = Inr [(as_uri ''CS300'', ''CS300'', 0)]"
  by code_simp

lemma eve_max_credits:
  "get_int rt_fwd (budget_graph (- 1)) (URIRef eve) ''maxCredits'' = Inr (Some (- 1))"
  by code_simp

lemma eve_cs300_credits:
  "get_int rt_fwd (budget_graph (- 1)) (as_uri ''CS300'') ''credits'' = Inr None"
  by code_simp

lemma eve_item:
  "\<exists>item. ranked_of rt_fwd (budget_graph (- 1)) eve = Inr [item] \<and> credits (meta item) = 0"
  using label_credits_Inr[OF eve_ranked] by auto

lemma eve_courses: "course_names (recommend rt_fwd (budget_graph (- 1)) eve) = Inr []"
proof -
  from eve_item obtain item where
    i: "ranked_of rt_fwd (budget_graph (- 1)) eve = Inr [item]" "credits (meta item) = 0"
    by blast
  from ranked_recommend[OF i(1) eve_max_credits] i(2) show ?thesis
    by (auto simp: course_names_def fits_def Let_def)
qed

lemma eve_selected_credits: "selected_credits rt_fwd (budget_graph (- 1)) eve = Inr 0"
proof -
  from eve_item obtain item where
    i: "ranked_of rt_fwd (budget_graph (- 1)) eve = Inr [item]" "credits (meta item) = 0"
    by blast
  then show ?thesis
    by (simp add: selected_credits_def selected_of_def eve_max_credits fits_def Let_def)
qed

text \<open>
  Against claim C2 as stated: Eve's budget is \<open>- 1\<close>, no course is returned, and the
  credits of the selected courses sum to 0, which is more than the budget.
\<close>

theorem budget_negative_counterexample:
  "get_int rt_fwd (budget_graph (- 1)) (URIRef eve) ''maxCredits'' = Inr (Some (- 1))
   \<and> course_names (recommend rt_fwd (budget_graph (- 1)) eve) = Inr []
   \<and> selected_credits rt_fwd (budget_graph (- 1)) eve = Inr 0"
  using eve_max_credits eve_courses eve_selected_credits by simp

text \<open>
  Against claim C10 as stated: with Eve's budget of \<open>- 1\<close>, the only ranked candidate
  has no credits value and counts 0 credits, and it is not returned.
\<close>

theorem zero_credit_skipped_counterexample:
  "label_credits (ranked_of rt_fwd (budget_graph (- 1)) eve) = Inr [(as_uri ''CS300'', ''CS300'', 0)]
   \<and> get_int rt_fwd (budget_graph (- 1)) (as_uri ''CS300'') ''credits'' = Inr None
   \<and> course_names (recommend rt_fwd (budget_graph (- 1)) eve) = Inr []"
  using eve_ranked eve_cs300_credits eve_courses by simp

lemma zero_ranked:
  "label_credits (ranked_of rt_fwd (budget_graph 0) eve) = Inr [(as_uri ''CS300'', ''CS300'', 0)]"
  by code_simp

lemma zero_max_credits:
  "get_int rt_fwd (budget_graph 0) (URIRef eve) ''maxCredits'' = Inr (Some 0)"
  by code_simp

lemma zero_cs300_credits:
  "get_int rt_fwd (budget_graph 0) (as_uri ''CS300'') ''credits'' = Inr None"
  by code_simp

theorem zero_credit_selected_witness:
  "\<exists>item. ranked_of rt_fwd (budget_graph 0) eve = Inr [item]
     \<and> get_int rt_fwd (budget_graph 0) (URIRef eve) ''maxCredits'' = Inr (Some 0)
     \<and> get_int rt_fwd (budget_graph 0) (course_uri item) ''credits'' = Inr None
     \<and> credits (meta item) = 0
     \<and> (\<exists>r. recommend rt_fwd (budget_graph 0) eve = Inr r
           \<and> courses r = [rec_entry item (selected_line (Some 0) 0 0)])"
proof -
  from label_credits_Inr[OF zero_ranked] obtain item where
    i: "ranked_of rt_fwd (budget_graph 0) eve = Inr [item]" "course_uri item = as_uri ''CS300''"
    by auto
  have 1: "ranked_of rt_fwd (budget_graph 0) eve = Inr ([] @ item # [])" using i(1) by simp
  have 2: "Some (0::int) = None \<or> (\<exists>m. Some 0 = Some m \<and> (0::int) \<le> m)" by simp
  have 3: "get_int rt_fwd (budget_graph 0) (course_uri item) ''credits'' = Inr None
         \<or> get_int rt_fwd (budget_graph 0) (course_uri item) ''credits'' = Inr (Some 0)"
    using zero_cs300_credits i(2) by simp
  from zero_credit_selected[OF 1 zero_max_credits 2 3] i zero_max_credits zero_cs300_credits
  show ?thesis by auto
qed

text \<open>
  Against claim C4 as stated: of Dan's two candidates, the one without a difficulty is
  ranked before the one of difficulty 1000, so the ranked list is not in the order of
  the specification.
\<close>

theorem ranking_missing_counterexample:
  "label_difficulty (ranked_of rt_fwd dan_graph dan) = Inr [(''Open'', None), (''Hard'', Some 1000)]
   \<and> map_sum id (sorted_wrt spec_rank_ge) (ranked_of rt_fwd dan_graph dan) = Inr False"
  by code_simp

lemma domain_ok_zero: "domain_ok (budget_graph 0)"
  by code_simp

lemma nobody_no_student: "\<not> is_student (budget_graph 0) (URIRef (BASE @ ''Nobody''))"
  by code_simp

theorem unknown_student_witness:
  "domain_ok (budget_graph 0) \<and> \<not> is_student (budget_graph 0) (URIRef (BASE @ ''Nobody''))
   \<and> recommend rt_fwd (budget_graph 0) (BASE @ ''Nobody'')
       = Inr \<lparr>courses = [], careers = [], papers = []\<rparr>"
  using unknown_student_empty[OF domain_ok_zero nobody_no_student, of rt_fwd]
    domain_ok_zero nobody_no_student by simp

lemma cay_fwd:
  "map_sum id (\<lambda>r. (map (\<lambda>e. interest_paths (rc_explain e)) (courses r), map career (careers r)))
     (recommend rt_fwd cay_graph cay) =
   Inr ([[interest_path ''Cay'' ''ML'' ''CS201'', interest_path ''Cay'' ''AI'' ''CS201'']],
        [''Analyst''])"
  by code_simp

lemma cay_rev:
  "interest_path_lists (recommend rt_rev cay_graph cay) =
   Inr [[interest_path ''Cay'' ''AI'' ''CS201'', interest_path ''Cay'' ''ML'' ''CS201'']]"
  by code_simp

lemma cay_fwd_paths:
  "interest_path_lists (recommend rt_fwd cay_graph cay) =
   Inr [[interest_path ''Cay'' ''ML'' ''CS201'', interest_path ''Cay'' ''AI'' ''CS201'']]"
  using cay_fwd by (cases "recommend rt_fwd cay_graph cay") (auto simp: interest_path_lists_def)

lemma cay_fwd_careers:
  "\<exists>r. recommend rt_fwd cay_graph cay = Inr r \<and> map career (careers r) = [''Analyst'']"
  using cay_fwd by (cases "recommend rt_fwd cay_graph cay") auto

lemma interest_path_inj: "(interest_path s a c = interest_path s b c) = (a = b)"
  by (simp add: interest_path_def)

text \<open>The prerequisite paths of a returned course are in the order of the prerequisites' labels.\<close>

lemma prereq_paths_sorted:
  assumes "recommend rt g sid = Inr r" and "e \<in> set (courses r)"
  shows "\<exists>ps. prereq_paths (rc_explain e) =
               map (\<lambda>p. prereq_path (course e) (iri_to_label g p) (iri_to_label g (URIRef sid))) ps
             \<and> sorted (map (iri_to_label g) ps)"
proof -
  let ?s = "URIRef sid"
  from assms(1) obtain ts mc md cands where
    cands: "candidates_of rt g ?s ts mc md = Inr cands" and
    r: "r = \<lparr>courses = select_loop mc 0 (ranked cands),
            careers = rec_careers_of rt g ?s, papers = rec_papers_of rt g ?s\<rparr>"
    by (rule recommend_Inr)
  from assms(2) r have "e \<in> set (select_loop mc 0 (ranked cands))" by simp
  then obtain x l where x: "x \<in> set (ranked cands)" "course e = course_label x"
      "rc_explain e = (explain x)\<lparr>budget_line := l\<rparr>"
    using select_loop_set by blast
  from x(1) have "x \<in> set cands" by (simp add: ranked_def set_sort_reverse)
  with cands obtain c where
    cx: "candidate_of rt g ?s (taken_of g ?s) (interests_of g ?s) ts mc md
               (get_str g ?s ''preferredTrack'') c = Inr (Some x)"
    unfolding candidates_of_def using candidates_loop_set by blast
  note f = candidate_of_Some[OF cx]
  let ?ps = "sort_key (iri_to_label g) (set_order rt (objects g c (as_uri ''hasPrerequisite'')))"
  have "prereq_paths (rc_explain e) =
          map (\<lambda>p. prereq_path (course e) (iri_to_label g p) (iri_to_label g ?s)) ?ps"
    using x(2,3) f(7,11) by simp
  moreover have "sorted (map (iri_to_label g) ?ps)" by simp
  ultimately show ?thesis by blast
qed

text \<open>
  Claim C5 fails on the program. For Cay, with sets iterated in the order of their
  construction, the interest paths of CS201 name ML before AI, although the label AI
  sorts before ML: the loop over the matched skills is the one loop of the explanation
  that does not sort by label.
\<close>

theorem interest_paths_unsorted:
  "interest_path_lists (recommend rt_fwd cay_graph cay) =
     Inr [[interest_path ''Cay'' ''ML'' ''CS201'', interest_path ''Cay'' ''AI'' ''CS201'']]
   \<and> ''AI'' < ''ML''"
  using cay_fwd_paths by simp

text \<open>
  Claim C6 fails on the program. On the same store and for the same student, the result
  under one iteration order of sets differs from the result under another: the order of
  the interest paths follows the iteration order.
\<close>

theorem recommend_order_dependent:
  "valid_order (set_order rt_fwd) \<and> valid_order (set_order rt_rev)
   \<and> recommend rt_fwd cay_graph cay \<noteq> recommend rt_rev cay_graph cay"
proof -
  have "interest_path_lists (recommend rt_fwd cay_graph cay)
          \<noteq> interest_path_lists (recommend rt_rev cay_graph cay)"
    by (simp add: cay_fwd_paths cay_rev interest_path_inj)
  then have "recommend rt_fwd cay_graph cay \<noteq> recommend rt_rev cay_graph cay"
    by auto
  with valid_order_fwd valid_order_rev show ?thesis by simp
qed

theorem career_iff_witness:
  "\<exists>r. recommend rt_fwd cay_graph cay = Inr r \<and> map career (careers r) = [''Analyst'']
     \<and> mset (map career (careers r)) =
         mset (map (iri_to_label cay_graph)
           (filter (\<lambda>car. set (objects cay_graph car (as_uri ''requiresSkill''))
                         \<inter> (set (objects cay_graph (URIRef cay) (as_uri ''hasInterest''))
                            \<union> (\<Union>c \<in> set (objects cay_graph (URIRef cay) (as_uri ''takesCourse'')).
                                  set (objects cay_graph c (as_uri ''teachesSkill'')))) \<noteq> {})
              (subjects cay_graph RDF_type (as_uri ''Career''))))"
proof -
  from cay_fwd_careers obtain r where
    r: "recommend rt_fwd cay_graph cay = Inr r" "map career (careers r) = [''Analyst'']"
    by auto
  note c = career_iff[OF r(1), THEN conjunct1]
  show ?thesis
    by (intro exI[of _ r] conjI) (fact r c)+
qed

text \<open>
  Claim C3 fails on the program. On the store of the scenario that enumerates CS202
  before CS201, the two candidates have equal scores, the sort keeps the order of the
  store, and the course returned is CS202, not CS201: no tie is broken by label.
\<close>

theorem tie_follows_store_order:
  "course_names (recommend rt_fwd ada_graph_swapped ada) = Inr [''CS202'']"
  by code_simp

end
